theory Spec2Isabelle
  imports Complex_Main "HOL-Library.Word" "HOL-Library.Sublist"
begin

unbundle bit_operations_syntax

section \<open>The on-chain ledger: HathorTransactions.sol\<close>

text \<open>
  Solidity value types: \<open>bytes32\<close> and \<open>uint256\<close> are 256-bit words, an \<open>address\<close> is a
  160-bit word, \<open>bytes\<close> is a list of octets. A \<open>require\<close> that fails reverts the whole
  call: the model returns \<open>Inl\<close> with the revert reason and no new state.
\<close>

type_synonym bytes32 = "256 word"
type_synonym uint256 = "256 word"
type_synonym address = "160 word"
type_synonym bytes = "8 word list"

datatype Flow = MELT | MINT | TRNASFER | RETURN

datatype revert = Revert string

datatype event =
    ProposalSigned bytes32 address bool bytes
  | ProposalSent bytes32 bool
  | TransactionProposed bytes32 bytes32 bytes
  | MemberAddition address
  | MemberRemoval address

text \<open>
  The storage of the contract. \<open>owner\<close> and \<open>initialized\<close> are the storage of the inherited
  \<open>UpgradableOwnable\<close> and \<open>Initializable\<close>; \<open>events\<close> is the log, oldest first. An event is
  recorded with the arguments given at its \<open>emit\<close>.
\<close>

record contract =
  members :: "address list"
  isMember :: "address \<Rightarrow> bool"
  isSigned :: "bytes32 \<Rightarrow> address \<Rightarrow> bool"
  isProcessed :: "bytes32 \<Rightarrow> bool"
  isProposed :: "bytes32 \<Rightarrow> bool"
  transactionHex :: "bytes32 \<Rightarrow> bytes"
  transactionSignatures :: "bytes32 \<Rightarrow> bytes list"
  owner :: address
  initialized :: bool
  events :: "event list"

definition NULL_ADDRESS :: address where
  "NULL_ADDRESS = 0"

definition MAX_MEMBER_COUNT :: nat where
  "MAX_MEMBER_COUNT = 50"

subsection \<open>abi.encodePacked\<close>

text \<open>
  Packed encoding of the static types used here: a \<open>bytes32\<close> or \<open>uint256\<close> is its 32
  octets, most significant first; an enum is a \<open>uint8\<close>, one octet; the encodings are
  concatenated without padding.
\<close>

definition packed32 :: "256 word \<Rightarrow> bytes" where
  "packed32 w = map (\<lambda>i. ucast (drop_bit (8 * (31 - i)) w)) [0..<32]"

fun Flow_uint8 :: "Flow \<Rightarrow> 8 word" where
  "Flow_uint8 MELT = 0"
| "Flow_uint8 MINT = 1"
| "Flow_uint8 TRNASFER = 2"
| "Flow_uint8 RETURN = 3"

definition encodePacked ::
  "bytes32 \<Rightarrow> bytes32 \<Rightarrow> bytes32 \<Rightarrow> uint256 \<Rightarrow> bytes32 \<Rightarrow> Flow \<Rightarrow> bytes" where
  "encodePacked a b c d e f =
     packed32 a @ packed32 b @ packed32 c @ packed32 d @ packed32 e @ [Flow_uint8 f]"

subsection \<open>Modifiers\<close>

definition onlyMember :: "contract \<Rightarrow> address \<Rightarrow> bool" where
  "onlyMember st msgSender = isMember st msgSender"

text \<open>
  \<open>onlyOwner\<close> and \<open>initializer\<close> come from the imported zeppelin contracts: the caller is
  the stored owner; the contract has not been initialised yet.
\<close>

definition onlyOwner :: "contract \<Rightarrow> address \<Rightarrow> bool" where
  "onlyOwner st msgSender = (msgSender = owner st)"

definition initializer :: "contract \<Rightarrow> bool" where
  "initializer st = (\<not> initialized st)"

subsection \<open>Functions\<close>

text \<open>
  \<open>keccak256\<close> is a parameter \<open>H\<close> of every function that hashes. The parameter
  \<open>msgSender\<close> is \<open>_msgSender()\<close>.
\<close>

text \<open>The loop of \<open>initialize\<close>, from index \<open>i\<close> on; the members seen so far are in \<open>st\<close>.\<close>

fun initialize_loop :: "contract \<Rightarrow> address list \<Rightarrow> revert + contract" where
  "initialize_loop st [] = Inr st"
| "initialize_loop st (m # ms) =
     (if \<not> (\<not> isMember st m \<and> m \<noteq> NULL_ADDRESS) then Inl (Revert ''Federation: Invalid members'')
      else initialize_loop
             (st\<lparr>isMember := (isMember st)(m := True), events := events st @ [MemberAddition m]\<rparr>)
             ms)"

definition initialize :: "contract \<Rightarrow> address list \<Rightarrow> address \<Rightarrow> revert + contract" where
  "initialize st members' owner' =
     (if \<not> initializer st then Inl (Revert ''Contract instance has already been initialized'')
      else if \<not> length members' \<le> MAX_MEMBER_COUNT then Inl (Revert ''Federation: Too many members'')
      else initialize_loop (st\<lparr>initialized := True, owner := owner', members := members'\<rparr>) members')"

definition getTransactionId ::
  "(bytes \<Rightarrow> bytes32) \<Rightarrow> contract \<Rightarrow> address \<Rightarrow>
   bytes32 \<Rightarrow> bytes32 \<Rightarrow> uint256 \<Rightarrow> bytes32 \<Rightarrow> bytes32 \<Rightarrow> Flow \<Rightarrow> revert + (bytes32 \<times> contract)" where
  "getTransactionId H st msgSender originalTokenAddress transactionHash val sender receiver flow =
     (if \<not> onlyMember st msgSender then Inl (Revert ''Federation: Not Federator'')
      else
        let transactionId =
              H (encodePacked originalTokenAddress sender receiver val transactionHash flow)
        in Inr (transactionId, st))"

definition sendTransactionProposal ::
  "(bytes \<Rightarrow> bytes32) \<Rightarrow> contract \<Rightarrow> address \<Rightarrow>
   bytes32 \<Rightarrow> bytes32 \<Rightarrow> uint256 \<Rightarrow> bytes32 \<Rightarrow> bytes32 \<Rightarrow> Flow \<Rightarrow> bytes \<Rightarrow> revert + contract" where
  "sendTransactionProposal H st msgSender originalTokenAddress transactionHash val sender receiver
     flow txHex =
     (if \<not> onlyMember st msgSender then Inl (Revert ''Federation: Not Federator'')
      else
        let transactionId =
              H (encodePacked originalTokenAddress sender receiver val transactionHash flow)
        in if \<not> (isProposed st transactionId = False)
           then Inl (Revert ''HathorTransactions: already proposed'')
           else Inr (st\<lparr>transactionHex := (transactionHex st)(transactionId := txHex),
                       isProposed := (isProposed st)(transactionId := True),
                       events := events st @ [TransactionProposed transactionId transactionHash txHex]\<rparr>))"

definition updateSignatureState ::
  "(bytes \<Rightarrow> bytes32) \<Rightarrow> contract \<Rightarrow> address \<Rightarrow>
   bytes32 \<Rightarrow> bytes32 \<Rightarrow> uint256 \<Rightarrow> bytes32 \<Rightarrow> bytes32 \<Rightarrow> Flow \<Rightarrow> bytes \<Rightarrow> bool \<Rightarrow> revert + contract" where
  "updateSignatureState H st msgSender originalTokenAddress transactionHash val sender receiver
     flow signature signed' =
     (if \<not> onlyMember st msgSender then Inl (Revert ''Federation: Not Federator'')
      else
        let transactionId =
              H (encodePacked originalTokenAddress sender receiver val transactionHash flow)
        in if \<not> (isSigned st transactionId msgSender = False)
           then Inl (Revert ''HathorTransactions: Transaction already signed'')
           else Inr (st\<lparr>isSigned := (isSigned st)
                                     (transactionId := (isSigned st transactionId)(msgSender := signed')),
                       transactionSignatures := (transactionSignatures st)
                          (transactionId := transactionSignatures st transactionId @ [signature]),
                       events := events st @ [ProposalSigned transactionId msgSender signed' signature]\<rparr>))"

definition updateTransactionState ::
  "(bytes \<Rightarrow> bytes32) \<Rightarrow> contract \<Rightarrow> address \<Rightarrow>
   bytes32 \<Rightarrow> bytes32 \<Rightarrow> uint256 \<Rightarrow> bytes32 \<Rightarrow> bytes32 \<Rightarrow> Flow \<Rightarrow> bool \<Rightarrow> revert + contract" where
  "updateTransactionState H st msgSender originalTokenAddress transactionHash val sender receiver
     flow sent =
     (if \<not> onlyMember st msgSender then Inl (Revert ''Federation: Not Federator'')
      else
        let transactionId =
              H (encodePacked originalTokenAddress sender receiver val transactionHash flow)
        in if \<not> (isProcessed st transactionId = False)
           then Inl (Revert ''HathorTransactions: Transaction already sent'')
           else Inr (st\<lparr>isProcessed := (isProcessed st)(transactionId := sent),
                       events := events st @ [ProposalSent transactionId sent]\<rparr>))"

definition addMember :: "contract \<Rightarrow> address \<Rightarrow> address \<Rightarrow> revert + contract" where
  "addMember st msgSender newMember =
     (if \<not> onlyOwner st msgSender then Inl (Revert ''Ownable: caller is not the owner'')
      else if \<not> newMember \<noteq> NULL_ADDRESS then Inl (Revert ''Federation: Empty member'')
      else if \<not> \<not> isMember st newMember then Inl (Revert ''Federation: Member already exists'')
      else Inr (st\<lparr>isMember := (isMember st)(newMember := True),
                  members := members st @ [newMember],
                  events := events st @ [MemberAddition newMember]\<rparr>))"

text \<open>
  The loop of \<open>removeMember\<close> over the indices \<open>i < members.length - 1\<close>: the first entry
  equal to \<open>_oldMember\<close> is overwritten with the last member, and the loop stops there.
  The argument is the list without its last element, \<open>lastm\<close> the last element.
\<close>

fun removeMember_loop :: "address list \<Rightarrow> address \<Rightarrow> address \<Rightarrow> address list" where
  "removeMember_loop [] oldMember lastm = []"
| "removeMember_loop (m # ms) oldMember lastm =
     (if m = oldMember then lastm # ms else m # removeMember_loop ms oldMember lastm)"

definition removeMember :: "contract \<Rightarrow> address \<Rightarrow> address \<Rightarrow> revert + contract" where
  "removeMember st msgSender oldMember =
     (if \<not> onlyOwner st msgSender then Inl (Revert ''Ownable: caller is not the owner'')
      else if \<not> oldMember \<noteq> NULL_ADDRESS then Inl (Revert ''Federation: Empty member'')
      else if \<not> isMember st oldMember then Inl (Revert ''Federation: Member doesn't exists'')
      else if \<not> length (members st) > 1 then Inl (Revert ''Federation: Can't remove all the members'')
      else Inr (st\<lparr>isMember := (isMember st)(oldMember := False),
                  members := removeMember_loop (butlast (members st)) oldMember (last (members st)),
                  events := events st @ [MemberRemoval oldMember]\<rparr>))"

definition getMembers :: "contract \<Rightarrow> address list" where
  "getMembers st = members st"

subsection \<open>Transactions sent to the contract\<close>

text \<open>
  One external call, with its arguments in the order of the Solidity signature. A call
  that reverts leaves the storage as it was.
\<close>

datatype call =
    Initialize "address list" address
  | GetTransactionId bytes32 bytes32 uint256 bytes32 bytes32 Flow
  | SendTransactionProposal bytes32 bytes32 uint256 bytes32 bytes32 Flow bytes
  | UpdateSignatureState bytes32 bytes32 uint256 bytes32 bytes32 Flow bytes bool
  | UpdateTransactionState bytes32 bytes32 uint256 bytes32 bytes32 Flow bool
  | AddMember address
  | RemoveMember address
  | GetMembers

fun exec :: "(bytes \<Rightarrow> bytes32) \<Rightarrow> contract \<Rightarrow> address \<Rightarrow> call \<Rightarrow> revert + contract" where
  "exec H st c (Initialize ms ow) = initialize st ms ow"
| "exec H st c (GetTransactionId a t v s r f) = map_sum id snd (getTransactionId H st c a t v s r f)"
| "exec H st c (SendTransactionProposal a t v s r f x) = sendTransactionProposal H st c a t v s r f x"
| "exec H st c (UpdateSignatureState a t v s r f g b) = updateSignatureState H st c a t v s r f g b"
| "exec H st c (UpdateTransactionState a t v s r f b) = updateTransactionState H st c a t v s r f b"
| "exec H st c (AddMember m) = addMember st c m"
| "exec H st c (RemoveMember m) = removeMember st c m"
| "exec H st c GetMembers = Inr st"

definition step :: "(bytes \<Rightarrow> bytes32) \<Rightarrow> contract \<Rightarrow> address \<times> call \<Rightarrow> contract" where
  "step H st tx = (case exec H st (fst tx) (snd tx) of Inl _ \<Rightarrow> st | Inr st' \<Rightarrow> st')"

definition run :: "(bytes \<Rightarrow> bytes32) \<Rightarrow> contract \<Rightarrow> (address \<times> call) list \<Rightarrow> contract" where
  "run H st txs = foldl (step H) st txs"


section \<open>The federator's wallet client: HathorWallet.ts\<close>

subsection \<open>JavaScript values\<close>

text \<open>
  A thrown value is either a \<open>HathorException\<close>, with its full message and the original
  message that \<open>getOriginalMessage()\<close> returns, or any other \<open>Error\<close> with its message.
  A function that can throw returns \<open>js_error + 'a\<close>.
\<close>

datatype js_error = HathorException string string | Error string

text \<open>A number in a template literal: the decimal digits of a natural number.\<close>

definition digit_char :: "nat \<Rightarrow> char" where
  "digit_char d = char_of (48 + d)"

function show_nat :: "nat \<Rightarrow> string" where
  "show_nat n = (if n < 10 then [digit_char n] else show_nat (n div 10) @ [digit_char (n mod 10)])"
  by pat_completeness auto
termination
  by (relation "measure id") auto

declare show_nat.simps [simp del]

text \<open>
  \<open>String.prototype.substring(start, end)\<close> for indices that are natural numbers: both
  are clamped to the length, and swapped when \<open>start\<close> is the larger.
\<close>

definition substring :: "string \<Rightarrow> nat \<Rightarrow> nat \<Rightarrow> string" where
  "substring s start end' =
     (let a = min start (length s); b = min end' (length s)
      in take (max a b - min a b) (drop (min a b) s))"

text \<open>\<open>Math.ceil(a / b)\<close> on natural numbers, through the quotient as a real number.\<close>

definition Math_ceil_div :: "nat \<Rightarrow> nat \<Rightarrow> nat" where
  "Math_ceil_div a b = nat \<lceil>real a / real b\<rceil>"

subsection \<open>wrapData\<close>

text \<open>
  An element of the \<open>outputs\<close> array: \<open>{type: 'data', data: d}\<close> or
  \<open>{address: a, value: v}\<close>.
\<close>

datatype tx_output = DataOutput string | AddressOutput string nat

definition dataLimit :: nat where
  "dataLimit = 145"

text \<open>The \<open>for\<close> loop of \<open>wrapData\<close>, from index \<open>i\<close> on, pushing to \<open>outputs\<close>.\<close>

function wrapData_loop :: "string \<Rightarrow> string \<Rightarrow> nat \<Rightarrow> nat \<Rightarrow> tx_output list \<Rightarrow> tx_output list" where
  "wrapData_loop dataType dat arraySize i outputs =
     (if i < arraySize then
        let start = i * dataLimit;
            end' = start + dataLimit;
            part = substring dat start end'
        in wrapData_loop dataType dat arraySize (i + 1)
             (outputs @ [DataOutput (dataType @ show_nat i @ show_nat arraySize @ part)])
      else outputs)"
  by pat_completeness auto
termination
  by (relation "measure (\<lambda>(dataType, dat, arraySize, i, outputs). arraySize - i)") auto

declare wrapData_loop.simps [simp del]

text \<open>
  The data outputs that \<open>wrapData\<close> builds before it asks for the multisig address.
\<close>

definition wrapData_chunks :: "string \<Rightarrow> string \<Rightarrow> tx_output list" where
  "wrapData_chunks dataType dat =
     (let dataLength = length dat;
          arraySize = Math_ceil_div dataLength dataLimit
      in wrapData_loop dataType dat arraySize 0 [])"

subsection \<open>Decoding custom data\<close>

text \<open>
  The decoder (\<open>HathorTx.getCustomData\<close>, \<open>HathorUtxo\<close>) is not among the sources.
  The definitions of this subsection follow section 4.2 of the specification.
\<close>

datatype decode_error = MalformedPayload

record chunk =
  chunkIndex :: nat
  totalChunks :: nat
  chunkBody :: string

text \<open>
  Modelled from the spec: the chunk index and the total are single decimal digits that
  follow the tag, with no delimiter; the rest of the payload is the chunk body. A payload
  that is too short for the two digits, or has another character in their place, does not
  parse.
\<close>

definition digit_val :: "char \<Rightarrow> nat option" where
  "digit_val c = (if 48 \<le> (of_char c :: nat) \<and> (of_char c :: nat) \<le> 57
                  then Some (of_char c - 48) else None)"

definition parse_chunk :: "nat \<Rightarrow> string \<Rightarrow> chunk option" where
  "parse_chunk tagLength payload =
     (case drop tagLength payload of
        i # t # rest \<Rightarrow>
          (case (digit_val i, digit_val t) of
             (Some iv, Some tv) \<Rightarrow> Some \<lparr>chunkIndex = iv, totalChunks = tv, chunkBody = rest\<rparr>
           | _ \<Rightarrow> None)
      | _ \<Rightarrow> None)"

text \<open>
  Modelled from the spec: the payloads of the custom-data outputs of a transaction, in
  the order of the outputs.
\<close>

fun data_payloads :: "tx_output list \<Rightarrow> string list" where
  "data_payloads [] = []"
| "data_payloads (DataOutput d # os) = d # data_payloads os"
| "data_payloads (AddressOutput a v # os) = data_payloads os"

fun parse_all :: "nat \<Rightarrow> string list \<Rightarrow> chunk list option" where
  "parse_all n [] = Some []"
| "parse_all n (p # ps) =
     (case parse_chunk n p of
        None \<Rightarrow> None
      | Some c \<Rightarrow> (case parse_all n ps of None \<Rightarrow> None | Some cs \<Rightarrow> Some (c # cs)))"

text \<open>
  Modelled from the spec: an expected chunk index in \<open>[0, totalChunks)\<close> is missing; two
  chunks claim the same index with different totals.
\<close>

definition index_missing :: "chunk list \<Rightarrow> bool" where
  "index_missing cs =
     list_ex (\<lambda>c. list_ex (\<lambda>i. i \<notin> set (map chunkIndex cs)) [0..<totalChunks c]) cs"

definition totals_conflict :: "chunk list \<Rightarrow> bool" where
  "totals_conflict cs =
     list_ex (\<lambda>c. list_ex (\<lambda>d. chunkIndex c = chunkIndex d \<and> totalChunks c \<noteq> totalChunks d) cs) cs"

text \<open>
  Modelled from the spec: \<open>decode\<close> locates all custom-data outputs whose payload starts
  with the type tag, orders them by the embedded chunk index and concatenates the bodies;
  it returns absent (\<open>None\<close>) if no output matches, and rejects with MalformedPayload a
  payload that does not parse, a missing index and conflicting totals.
\<close>

definition decode :: "tx_output list \<Rightarrow> string \<Rightarrow> decode_error + string option" where
  "decode outputs typeTag =
     (let matching = filter (prefix typeTag) (data_payloads outputs)
      in if matching = [] then Inr None
         else case parse_all (length typeTag) matching of
                None \<Rightarrow> Inl MalformedPayload
              | Some cs \<Rightarrow>
                  if index_missing cs \<or> totals_conflict cs then Inl MalformedPayload
                  else Inr (Some (concat (map chunkBody (sort_key chunkIndex cs)))))"


subsection \<open>The wallet service\<close>

text \<open>The fields of \<open>config.sidechain[0]\<close> that the federator reads.\<close>

record ConfigChain =
  walletUrl :: string
  singleWalletId :: string
  singleSeedKey :: string
  multisigWalletId :: string
  multisigSeedKey :: string
  multisigRequiredSignatures :: int
  multisigOrder :: int
  eventQueueType :: string
  pubsubProjectId :: string

text \<open>An axios response and the response bodies of the wallet service.\<close>

record 'a http =
  status :: nat
  statusText :: string
  data :: 'a

record Response =
  success :: bool
  message :: "string option"
  error :: "string option"
  errorCode :: "string option"

record CreateProposalResponse = Response +
  txHex :: string

record GetAddressResponse = Response +
  address :: string

record StatusResponse = Response +
  statusCode :: int
  statusMessage :: string

text \<open>
  What the wallet client does to the outside, in order: the HTTP requests (with the wallet
  id of the header and the request body), the delays in milliseconds, and the read of the
  token mapping file. Log lines are left out.
\<close>

datatype action =
    GetStatus string
  | PostStart string string bool
  | Delay nat
  | ReadFile string
  | PostMintTokens string string string string
  | GetAddress string
  | PostSendTx string "tx_output list"

text \<open>
  The wallet service answers a request from the whole history of actions, the request
  being the last one. \<open>Inl\<close> is a request that axios rejects, with the text that the
  rejection has in a template literal.
\<close>

record service =
  getStatus :: "action list \<Rightarrow> string + StatusResponse http"
  postStart :: "action list \<Rightarrow> string + Response http"
  postMintTokens :: "action list \<Rightarrow> string + CreateProposalResponse http"
  getAddress :: "action list \<Rightarrow> string + GetAddressResponse http"
  postSendTx :: "action list \<Rightarrow> string + Response http"

definition WALLET_STATUS_CONNECTING :: int where
  "WALLET_STATUS_CONNECTING = 1"

definition WALLET_STATUS_SYNCING :: int where
  "WALLET_STATUS_SYNCING = 2"

definition WALLET_STATUS_READY :: int where
  "WALLET_STATUS_READY = 3"

text \<open>
  An \<open>Error\<close> in a template literal. A \<open>HathorException\<close> is taken to render as an
  \<open>Error\<close> with its full message.
\<close>

fun js_toString :: "js_error \<Rightarrow> string" where
  "js_toString (Error m) = ''Error: '' @ m"
| "js_toString (HathorException full orig) = ''Error: '' @ full"

text \<open>
  Every function takes the history \<open>tr\<close> of actions so far and returns the history after
  it, with its result.
\<close>

definition startWallet ::
  "service \<Rightarrow> ConfigChain \<Rightarrow> action list \<Rightarrow> bool \<Rightarrow> action list \<times> (js_error + bool)" where
  "startWallet svc cfg tr multisig =
     (let id = (if multisig then multisigWalletId cfg else singleWalletId cfg);
          seedKey = (if multisig then multisigSeedKey cfg else singleSeedKey cfg);
          tr1 = tr @ [PostStart id seedKey multisig]
      in case postStart svc tr1 of
           Inl e \<Rightarrow> (tr1, Inl (Error (''Fail to start wallet: '' @ e)))
         | Inr response \<Rightarrow> (tr1, Inr (status response = 200 \<and> success (data response))))"

text \<open>
  \<open>isWalletReady\<close> returns \<open>true\<close>, \<open>false\<close> or, when no branch returns, \<open>undefined\<close>
  (\<open>None\<close>). The recursive call is returned, not awaited, inside the \<open>try\<close>: what it throws
  is not caught here.
\<close>

function isWalletReady ::
  "service \<Rightarrow> ConfigChain \<Rightarrow> action list \<Rightarrow> bool \<Rightarrow> int \<Rightarrow> action list \<times> (js_error + bool option)" where
  "isWalletReady svc cfg tr multisig retry =
     (let id = (if multisig then multisigWalletId cfg else singleWalletId cfg) in
      if retry > 3 then (tr, Inr (Some False))
      else
        let tr1 = tr @ [GetStatus id] in
        case getStatus svc tr1 of
          Inl e \<Rightarrow> (tr1, Inl (Error (''Fail to get status of '' @ id @ '' wallet: '' @ e)))
        | Inr response \<Rightarrow>
            if statusCode (data response) = WALLET_STATUS_READY then (tr1, Inr (Some True))
            else if statusCode (data response) \<in> set [WALLET_STATUS_CONNECTING, WALLET_STATUS_SYNCING]
            then isWalletReady svc cfg (tr1 @ [Delay 3000]) multisig (retry + 1)
            else if \<not> success (data response) \<and> statusMessage (data response) = []
            then (case startWallet svc cfg tr1 multisig of
                    (tr2, Inl e) \<Rightarrow>
                      (tr2, Inl (Error (''Fail to get status of '' @ id @ '' wallet: '' @ js_toString e)))
                  | (tr2, Inr started) \<Rightarrow>
                      isWalletReady svc cfg (tr2 @ [Delay 3000]) multisig (retry + 1))
            else (tr1, Inr None))"
  by pat_completeness auto
termination
  by (relation "measure (\<lambda>(svc, cfg, tr, multisig, retry). nat (4 - retry))") auto

declare isWalletReady.simps [simp del]

definition getMultiSigAddress ::
  "service \<Rightarrow> ConfigChain \<Rightarrow> action list \<Rightarrow> action list \<times> (js_error + string)" where
  "getMultiSigAddress svc cfg tr =
     (let tr1 = tr @ [GetAddress (multisigWalletId cfg)]
      in case getAddress svc tr1 of
           Inl e \<Rightarrow> (tr1, Inl (Error (''Fail to getMultiSigAddress: '' @ e)))
         | Inr response \<Rightarrow>
             if status response = 200 then (tr1, Inr (address (data response)))
             else (tr1, Inl (Error (''Fail to getMultiSigAddress: '' @
                    js_toString (Error (show_nat (status response) @ '' - '' @ statusText response @
                                        '' | [object Object]''))))))"

definition wrapData ::
  "service \<Rightarrow> ConfigChain \<Rightarrow> action list \<Rightarrow> string \<Rightarrow> string \<Rightarrow> string \<Rightarrow>
   action list \<times> (js_error + tx_output list)" where
  "wrapData svc cfg tr dataType dat txId =
     (let outputs = wrapData_chunks dataType dat
      in case getMultiSigAddress svc cfg tr of
           (tr1, Inl e) \<Rightarrow> (tr1, Inl e)
         | (tr1, Inr a) \<Rightarrow> (tr1, Inr (outputs @ [AddressOutput a 1])))"

definition render_option :: "string option \<Rightarrow> string" where
  "render_option x = (case x of None \<Rightarrow> ''undefined'' | Some s \<Rightarrow> s)"

definition broadcastDataToMultisig ::
  "service \<Rightarrow> ConfigChain \<Rightarrow> action list \<Rightarrow> tx_output list \<Rightarrow> action list \<times> (js_error + bool)" where
  "broadcastDataToMultisig svc cfg tr outputs =
     (let tr1 = tr @ [PostSendTx (singleWalletId cfg) outputs]
      in case postSendTx svc tr1 of
           Inl e \<Rightarrow> (tr1, Inl (Error (''Fail to broadcast data to multisig: '' @ e)))
         | Inr response \<Rightarrow>
             if status response \<noteq> 200
             then (tr1, Inl (Error (''Fail to broadcast data to multisig: '' @
                    js_toString (Error (''Response status: '' @ show_nat (status response) @
                                        '' - status message: '' @ statusText response)))))
             else if status response = 200 \<and> \<not> success (data response)
             then (tr1, Inl (Error (''Fail to broadcast data to multisig: '' @
                    js_toString (Error (''Error message: '' @ render_option (error (data response)))))))
             else (tr1, Inr True))"


text \<open>
  \<open>getHathorTokenAddress\<close> is an async function that \<open>sendTransactionProposal\<close> calls
  without \<open>await\<close>: the file is read, and the value interpolated into the request is the
  promise, not the address.
\<close>

definition getHathorTokenAddress :: "action list \<Rightarrow> string \<Rightarrow> action list \<times> string" where
  "getHathorTokenAddress tr evmTokenAddress =
     (tr @ [ReadFile ''./db/tokenMapping.json''], ''[object Promise]'')"

definition HathorWallet_sendTransactionProposal ::
  "service \<Rightarrow> ConfigChain \<Rightarrow> action list \<Rightarrow> string \<Rightarrow> string \<Rightarrow> string \<Rightarrow>
   action list \<times> (js_error + string)" where
  "HathorWallet_sendTransactionProposal svc cfg tr receiverAddress qtd token =
     (case getHathorTokenAddress tr token of
        (tr0, hathorTokenAddress) \<Rightarrow>
          (let tr1 = tr0 @ [PostMintTokens (multisigWalletId cfg) receiverAddress qtd hathorTokenAddress]
           in (case postMintTokens svc tr1 of
                 Inl e \<Rightarrow> (tr1, Inl (Error (''Failed to send transaction proposal: '' @ e)))
               | Inr response \<Rightarrow>
                   if status response = 200 \<and> success (data response)
                   then (tr1, Inr (txHex (data response)))
                   else (tr1, Inl (Error (''Failed to send transaction proposal: '' @
                          js_toString (Error (show_nat (status response) @ '' - '' @
                                              statusText response @ '' - [object Object]''))))))))"

definition broadcastProposal ::
  "service \<Rightarrow> ConfigChain \<Rightarrow> action list \<Rightarrow> string \<Rightarrow> string \<Rightarrow> action list \<times> (js_error + unit)" where
  "broadcastProposal svc cfg tr txHex' txId =
     (case wrapData svc cfg tr ''hex'' txHex' txId of
        (tr1, Inl e) \<Rightarrow> (tr1, Inl e)
      | (tr1, Inr outputs) \<Rightarrow>
          (case broadcastDataToMultisig svc cfg tr1 outputs of
             (tr2, Inl e) \<Rightarrow> (tr2, Inl e)
           | (tr2, Inr sent) \<Rightarrow> (tr2, Inr ())))"

definition HathorWallet_sendTokensToHathor ::
  "service \<Rightarrow> ConfigChain \<Rightarrow> action list \<Rightarrow> string \<Rightarrow> string \<Rightarrow> string \<Rightarrow> string \<Rightarrow>
   action list \<times> (js_error + unit)" where
  "HathorWallet_sendTokensToHathor svc cfg tr receiverAddress qtd tokenAddress txId =
     (if multisigOrder cfg > 1 then (tr, Inr ())
      else
        case isWalletReady svc cfg tr True 1 of
          (tr1, Inl e) \<Rightarrow> (tr1, Inl e)
        | (tr1, Inr ready1) \<Rightarrow>
            (case isWalletReady svc cfg tr1 False 1 of
               (tr2, Inl e) \<Rightarrow> (tr2, Inl e)
             | (tr2, Inr ready2) \<Rightarrow>
                 (case HathorWallet_sendTransactionProposal svc cfg tr2 receiverAddress qtd tokenAddress of
                    (tr3, Inl e) \<Rightarrow> (tr3, Inl e)
                  | (tr3, Inr txHex') \<Rightarrow> broadcastProposal svc cfg tr3 txHex' txId)))"

section \<open>The event coordinator: HathorService\<close>

text \<open>
  The classes \<open>HathorTx\<close>, \<open>HathorUtxo\<close> and the brokers are not among the sources. A
  transaction is what its methods answer; a broker is what its methods return or throw.
\<close>

record TokenData =
  tokenValue :: int
  token :: string
  tokenSender :: string

record HathorTx =
  tx_id :: string
  timestamp :: int
  haveCustomData :: "string \<Rightarrow> bool"
  getCustomData :: "string \<Rightarrow> string"
  getCustomDataType :: "string option"
  getCustomTokenData :: "TokenData list"

record hathor_event =
  event_type :: string
  event_tx :: HathorTx

record ProposalComponents =
  hex :: string
  signatures :: "string list"

datatype broker_kind = EvmBroker | HathorBroker

text \<open>The calls made on a broker, in order, with their arguments.\<close>

datatype broker_call =
    IsTxConfirmed broker_kind string
  | SendMySignaturesToProposal broker_kind string string
  | GetSignaturesToPush broker_kind string
  | SignAndPushProposal broker_kind string string "string list"
  | SendTokensFromHathor string int string string string int
  | SendTokensToHathor string string string string

record brokers =
  isTxConfirmed :: "broker_kind \<Rightarrow> string \<Rightarrow> js_error + bool"
  sendMySignaturesToProposal :: "broker_kind \<Rightarrow> string \<Rightarrow> string \<Rightarrow> js_error + unit"
  getSignaturesToPush :: "broker_kind \<Rightarrow> string \<Rightarrow> js_error + ProposalComponents"
  signAndPushProposal :: "broker_kind \<Rightarrow> string \<Rightarrow> string \<Rightarrow> string list \<Rightarrow> js_error + unit"
  sendTokensFromHathor :: "string \<Rightarrow> int \<Rightarrow> string \<Rightarrow> string \<Rightarrow> string \<Rightarrow> int \<Rightarrow> js_error + bool"
  sendTokensToHathor :: "string \<Rightarrow> string \<Rightarrow> string \<Rightarrow> string \<Rightarrow> js_error + unit"

definition HathorService_sendTokensToHathor ::
  "brokers \<Rightarrow> ConfigChain \<Rightarrow> string \<Rightarrow> string \<Rightarrow> string \<Rightarrow> string \<Rightarrow>
   broker_call list \<times> (js_error + unit)" where
  "HathorService_sendTokensToHathor b cfg receiverAddress qtd tokenAddress txHash =
     (if multisigOrder cfg > 1 then ([], Inr ())
      else ([SendTokensToHathor receiverAddress qtd tokenAddress txHash],
            sendTokensToHathor b receiverAddress qtd tokenAddress txHash))"


text \<open>
  \<open>getBrokerAndDataType\<close>: the \<open>switch\<close> has no default, so any other type gives
  \<open>undefined\<close> (\<open>None\<close>), and the caller's array destructuring throws a TypeError.
\<close>

definition getBrokerAndDataType :: "HathorTx \<Rightarrow> (broker_kind \<times> string) option" where
  "getBrokerAndDataType tx =
     (let customDataType = getCustomDataType tx
      in if customDataType = Some ''hsh'' then Some (EvmBroker, ''hsh'')
         else if customDataType = Some ''hid'' then Some (HathorBroker, ''hid'')
         else None)"

definition not_iterable :: js_error where
  "not_iterable = Error ''TypeError: undefined is not iterable''"

definition undefined_value :: js_error where
  "undefined_value = Error ''TypeError: Cannot read properties of undefined (reading 'value')''"

text \<open>
  \<open>parseHathorLogs\<close> returns the broker calls it made and \<open>true\<close>, \<open>false\<close> or, when it
  falls off its end, \<open>undefined\<close> (\<open>None\<close>); or what it threw.
\<close>

definition parseHathorLogs ::
  "brokers \<Rightarrow> ConfigChain \<Rightarrow> hathor_event \<Rightarrow> broker_call list \<times> (js_error + bool option)" where
  "parseHathorLogs b cfg ev =
     (if event_type ev \<noteq> ''wallet:new-tx'' then ([], Inr (Some True))
      else
        let tx = event_tx ev;
            isProposal = haveCustomData tx ''hex''
        in
        if isProposal then
          (let txHex' = getCustomData tx ''hex'' in
           (case getBrokerAndDataType tx of
              None \<Rightarrow> ([], Inl not_iterable)
            | Some (broker, dataType) \<Rightarrow>
                (let c1 = IsTxConfirmed broker (tx_id tx) in
                 (case isTxConfirmed b broker (tx_id tx) of
                    Inl e \<Rightarrow> ([c1], Inl e)
                  | Inr confirmed \<Rightarrow>
                      if \<not> confirmed then ([c1], Inr (Some False))
                      else
                        (let c2 = SendMySignaturesToProposal broker txHex' (getCustomData tx dataType) in
                         (case sendMySignaturesToProposal b broker txHex' (getCustomData tx dataType) of
                            Inl e \<Rightarrow> ([c1, c2], Inl e)
                          | Inr u \<Rightarrow> ([c1, c2], Inr (Some True))))))))
        else
          let isSignature = haveCustomData tx ''sig'' in
          if isSignature \<and> multisigOrder cfg \<ge> multisigRequiredSignatures cfg then
            (case getBrokerAndDataType tx of
               None \<Rightarrow> ([], Inl not_iterable)
             | Some (broker, dataType) \<Rightarrow>
                 (let c1 = IsTxConfirmed broker (tx_id tx) in
                  (case isTxConfirmed b broker (tx_id tx) of
                     Inl e \<Rightarrow> ([c1], Inl e)
                   | Inr confirmed \<Rightarrow>
                       if \<not> confirmed then ([c1], Inr (Some False))
                       else
                         (let txId = getCustomData tx dataType;
                              c2 = GetSignaturesToPush broker txId in
                          (case getSignaturesToPush b broker txId of
                             Inl e \<Rightarrow> ([c1, c2], Inl e)
                           | Inr components \<Rightarrow>
                               if int (length (signatures components)) < multisigRequiredSignatures cfg
                               then ([c1, c2], Inr (Some False))
                               else
                                 (let c3 = SignAndPushProposal broker (hex components) txId
                                             (signatures components) in
                                  (case signAndPushProposal b broker (hex components) txId
                                          (signatures components) of
                                     Inl e \<Rightarrow> ([c1, c2, c3], Inl e)
                                   | Inr u \<Rightarrow> ([c1, c2, c3], Inr (Some True)))))))))
          else
            let isHathorToEvm = haveCustomData tx ''addr'' in
            if isHathorToEvm then
              (let c1 = IsTxConfirmed HathorBroker (tx_id tx) in
               (case isTxConfirmed b HathorBroker (tx_id tx) of
                  Inl e \<Rightarrow> ([c1], Inl e)
                | Inr confirmed \<Rightarrow>
                    if \<not> confirmed then ([c1], Inr (Some False))
                    else
                      (case getCustomTokenData tx of
                         [] \<Rightarrow> ([c1], Inl undefined_value)
                       | tokenData # others \<Rightarrow>
                           (let c2 = SendTokensFromHathor (getCustomData tx ''addr'')
                                       (tokenValue tokenData) (token tokenData) (tx_id tx)
                                       (tokenSender tokenData) (timestamp tx) in
                            (case sendTokensFromHathor b (getCustomData tx ''addr'')
                                    (tokenValue tokenData) (token tokenData) (tx_id tx)
                                    (tokenSender tokenData) (timestamp tx) of
                               Inl e \<Rightarrow> ([c1, c2], Inl e)
                             | Inr result \<Rightarrow>
                                 if \<not> result
                                 then ([c1, c2], Inl (HathorException ''Invalid tx'' ''Invalid tx''))
                                 else ([c1, c2], Inr (Some True)))))))
            else ([], Inr None))"

subsection \<open>Non-retriable errors\<close>

text \<open>
  The regular expressions of \<open>nonRetriableErrors\<close> use ordinary characters and the dot
  only. A dot matches any character but a line terminator. \<open>String.prototype.match\<close>
  with such an expression succeeds when the expression matches at some position.
\<close>

datatype rx = Lit char | AnyChar

definition regex :: "string \<Rightarrow> rx list" where
  "regex src = map (\<lambda>c. if c = CHR ''.'' then AnyChar else Lit c) src"

fun rx_char :: "rx \<Rightarrow> char \<Rightarrow> bool" where
  "rx_char (Lit a) c = (a = c)"
| "rx_char AnyChar c = (c \<noteq> CHR 0x0A \<and> c \<noteq> CHR 0x0D)"

fun match_here :: "rx list \<Rightarrow> string \<Rightarrow> bool" where
  "match_here [] s = True"
| "match_here (r # rs) [] = False"
| "match_here (r # rs) (c # cs) = (rx_char r c \<and> match_here rs cs)"

fun js_match :: "rx list \<Rightarrow> string \<Rightarrow> bool" where
  "js_match rs [] = match_here rs []"
| "js_match rs (c # cs) = (match_here rs (c # cs) \<or> js_match rs cs)"

definition nonRetriableErrors :: "rx list list" where
  "nonRetriableErrors =
     [regex ''Invalid transaction. At least one of your inputs has already been spent.'',
      regex ''Transaction already exists'',
      regex ''Invalid tx'']"

text \<open>The \<open>for\<close> loop of the \<open>catch\<close> block, over the expressions from \<open>index\<close> on.\<close>

fun isNonRetriable_loop :: "rx list list \<Rightarrow> string \<Rightarrow> bool" where
  "isNonRetriable_loop [] originalError = False"
| "isNonRetriable_loop (rgxError # rest) originalError =
     (if js_match rgxError originalError then True else isNonRetriable_loop rest originalError)"

subsection \<open>The message handler of listenToPubSubEventQueue\<close>

datatype outcome = Ack | Nack

text \<open>
  The handler's argument is what \<open>JSON.parse(message.data.toString())\<close> gives: the event,
  or the error it throws. The result is the broker calls made and whether the message
  was acknowledged.
\<close>

definition on_error :: "js_error \<Rightarrow> outcome" where
  "on_error err =
     (case err of
        HathorException full originalError \<Rightarrow>
          if isNonRetriable_loop nonRetriableErrors originalError then Ack else Nack
      | Error m \<Rightarrow> Nack)"

definition on_message ::
  "brokers \<Rightarrow> ConfigChain \<Rightarrow> js_error + hathor_event \<Rightarrow> broker_call list \<times> outcome" where
  "on_message b cfg parsed =
     (case parsed of
        Inl err \<Rightarrow> ([], on_error err)
      | Inr ev \<Rightarrow>
          (case parseHathorLogs b cfg ev of
             (calls, Inr response) \<Rightarrow> (calls, if response = Some True then Ack else Nack)
           | (calls, Inl err) \<Rightarrow> (calls, on_error err)))"


section \<open>Reference definitions and fixtures\<close>

text \<open>
  The identifier as the specification writes it:
  \<open>H(originalTokenAddress \<parallel> sender \<parallel> receiver \<parallel> value \<parallel> transactionHash \<parallel> flow)\<close>. The
  arguments are in the order of the contract's signatures.
\<close>

definition transactionId_spec ::
  "(bytes \<Rightarrow> bytes32) \<Rightarrow> bytes32 \<Rightarrow> bytes32 \<Rightarrow> uint256 \<Rightarrow> bytes32 \<Rightarrow> bytes32 \<Rightarrow> Flow \<Rightarrow> bytes32" where
  "transactionId_spec H originalTokenAddress transactionHash val sender receiver flow =
     H (packed32 originalTokenAddress @ packed32 sender @ packed32 receiver @ packed32 val @
        packed32 transactionHash @ [Flow_uint8 flow])"

text \<open>Fresh storage, and a federation with the single member \<open>1\<close>, initialised by \<open>7\<close>.\<close>

definition storage0 :: contract where
  "storage0 = \<lparr>members = [], isMember = (\<lambda>_. False), isSigned = (\<lambda>_ _. False),
     isProcessed = (\<lambda>_. False), isProposed = (\<lambda>_. False), transactionHex = (\<lambda>_. []),
     transactionSignatures = (\<lambda>_. []), owner = 0, initialized = False, events = []\<rparr>"

definition federation1 :: contract where
  "federation1 = run (\<lambda>_. 0) storage0 [(7, Initialize [1] 7)]"

text \<open>States of that federation after one call by the member, and after all three.\<close>

definition proposed1 :: contract where
  "proposed1 = run (\<lambda>_. 0) federation1 [(1, SendTransactionProposal 0 0 0 0 0 MINT [3])]"

definition signed1 :: contract where
  "signed1 = run (\<lambda>_. 0) federation1 [(1, UpdateSignatureState 0 0 0 0 0 MINT [4] True)]"

definition processed1 :: contract where
  "processed1 = run (\<lambda>_. 0) federation1 [(1, UpdateTransactionState 0 0 0 0 0 MINT True)]"

definition settled1 :: contract where
  "settled1 = run (\<lambda>_. 0) federation1
     [(1, SendTransactionProposal 0 0 0 0 0 MINT [3]),
      (1, UpdateSignatureState 0 0 0 0 0 MINT [4] True),
      (1, UpdateTransactionState 0 0 0 0 0 MINT True)]"

definition later_calls :: "(address \<times> call) list" where
  "later_calls = [(7, AddMember 2), (2, UpdateSignatureState 0 0 0 0 0 MINT [5] False),
                  (7, RemoveMember 1), (2, UpdateTransactionState 1 0 0 0 0 MINT False)]"

subsection \<open>Wallet readiness\<close>

text \<open>
  What a status poll reports: a status code, or a stopped wallet (\<open>success = false\<close>, an
  empty status message and none of the three status codes). The wallet id and the seed key
  that a call for the multisig or the single wallet uses.
\<close>

definition reports :: "service \<Rightarrow> action list \<Rightarrow> int \<Rightarrow> bool" where
  "reports svc tr code =
     (case getStatus svc tr of Inl e \<Rightarrow> False | Inr response \<Rightarrow> statusCode (data response) = code)"

definition looks_stopped :: "service \<Rightarrow> action list \<Rightarrow> bool" where
  "looks_stopped svc tr =
     (case getStatus svc tr of
        Inl e \<Rightarrow> False
      | Inr response \<Rightarrow>
          statusCode (data response) \<noteq> WALLET_STATUS_READY \<and>
          statusCode (data response) \<noteq> WALLET_STATUS_CONNECTING \<and>
          statusCode (data response) \<noteq> WALLET_STATUS_SYNCING \<and>
          \<not> success (data response) \<and> statusMessage (data response) = [])"

definition walletId :: "ConfigChain \<Rightarrow> bool \<Rightarrow> string" where
  "walletId cfg multisig = (if multisig then multisigWalletId cfg else singleWalletId cfg)"

definition seedKeyOf :: "ConfigChain \<Rightarrow> bool \<Rightarrow> string" where
  "seedKeyOf cfg multisig = (if multisig then multisigSeedKey cfg else singleSeedKey cfg)"

fun is_poll :: "action \<Rightarrow> bool" where
  "is_poll (GetStatus w) = True"
| "is_poll a = False"

definition status_reply :: "bool \<Rightarrow> int \<Rightarrow> string \<Rightarrow> string + StatusResponse http" where
  "status_reply ok code msg =
     Inr \<lparr>status = 200, statusText = ''OK'',
          data = \<lparr>success = ok, message = None, error = None, errorCode = None,
                   statusCode = code, statusMessage = msg\<rparr>\<rparr>"

definition ok_reply :: "string + Response http" where
  "ok_reply = Inr \<lparr>status = 200, statusText = ''OK'',
                   data = \<lparr>success = True, message = None, error = None, errorCode = None\<rparr>\<rparr>"

text \<open>
  A wallet service whose n-th status poll answers the n-th entry of a script, and the last
  entry from then on; it starts a wallet on request and rejects every other request.
\<close>

definition scripted :: "(string + StatusResponse http) list \<Rightarrow> service" where
  "scripted script =
     \<lparr>getStatus = (\<lambda>tr. script ! min (length (filter is_poll tr) - 1) (length script - 1)),
      postStart = (\<lambda>tr. ok_reply),
      postMintTokens = (\<lambda>tr. Inl ''Network Error''),
      getAddress = (\<lambda>tr. Inl ''Network Error''),
      postSendTx = (\<lambda>tr. Inl ''Network Error'')\<rparr>"

definition config1 :: ConfigChain where
  "config1 = \<lparr>walletUrl = ''http://localhost:8000'', singleWalletId = ''single'',
     singleSeedKey = ''default'', multisigWalletId = ''multi'', multisigSeedKey = ''multisig'',
     multisigRequiredSignatures = 2, multisigOrder = 1, eventQueueType = ''pubsub'',
     pubsubProjectId = ''bridge''\<rparr>"

definition syncing :: "string + StatusResponse http" where
  "syncing = status_reply True WALLET_STATUS_SYNCING ''Syncing''"

definition ready :: "string + StatusResponse http" where
  "ready = status_reply True WALLET_STATUS_READY ''Ready''"

definition stopped :: "string + StatusResponse http" where
  "stopped = status_reply False 0 []"

definition config2 :: ConfigChain where
  "config2 = config1\<lparr>multisigOrder := 2\<rparr>"

definition no_brokers :: brokers where
  "no_brokers =
     \<lparr>isTxConfirmed = (\<lambda>k i. Inl (Error ''unreachable'')),
      sendMySignaturesToProposal = (\<lambda>k h i. Inl (Error ''unreachable'')),
      getSignaturesToPush = (\<lambda>k i. Inl (Error ''unreachable'')),
      signAndPushProposal = (\<lambda>k h i s. Inl (Error ''unreachable'')),
      sendTokensFromHathor = (\<lambda>r v t i s ts. Inl (Error ''unreachable'')),
      sendTokensToHathor = (\<lambda>r q t h. Inl (Error ''unreachable''))\<rparr>"

subsection \<open>The coordinator\<close>

text \<open>
  A regular expression of \<open>nonRetriableErrors\<close> matches a message when some part of
  the message has one character for each element of the expression.
\<close>

definition matches_at_some_position :: "rx list \<Rightarrow> string \<Rightarrow> bool" where
  "matches_at_some_position p s = (\<exists>pre mid post. s = pre @ mid @ post \<and> list_all2 rx_char p mid)"

text \<open>
  The broker calls of the three branches of \<open>parseHathorLogs\<close>, and an event reduced to
  a single custom-data tag.
\<close>

fun proposal_call :: "broker_call \<Rightarrow> bool" where
  "proposal_call (IsTxConfirmed k i) = True"
| "proposal_call (SendMySignaturesToProposal k h i) = True"
| "proposal_call c = False"

fun signature_call :: "broker_call \<Rightarrow> bool" where
  "signature_call (IsTxConfirmed k i) = True"
| "signature_call (GetSignaturesToPush k i) = True"
| "signature_call (SignAndPushProposal k h i s) = True"
| "signature_call c = False"

fun transfer_call :: "broker_call \<Rightarrow> bool" where
  "transfer_call (IsTxConfirmed k i) = (k = HathorBroker)"
| "transfer_call (SendTokensFromHathor r v t i s ts) = True"
| "transfer_call c = False"

definition only_tag :: "string \<Rightarrow> hathor_event \<Rightarrow> hathor_event" where
  "only_tag tag ev = ev\<lparr>event_tx := (event_tx ev)\<lparr>haveCustomData := (\<lambda>t. t = tag)\<rparr>\<rparr>"

text \<open>
  A transaction that answers \<open>haveCustomData\<close> for the listed tags, inside a new-tx event;
  brokers whose calls all succeed, and brokers whose calls after the confirmation throw.
\<close>

definition tagged_tx :: "string list \<Rightarrow> string option \<Rightarrow> HathorTx" where
  "tagged_tx tags dataType =
     \<lparr>tx_id = ''00aa'', timestamp = 1700000000,
      haveCustomData = (\<lambda>t. t \<in> set tags),
      getCustomData = (\<lambda>t. t @ ''-data''),
      getCustomDataType = dataType,
      getCustomTokenData = [\<lparr>tokenValue = 5, token = ''00'', tokenSender = ''WdQ9''\<rparr>]\<rparr>"

definition new_tx :: "string list \<Rightarrow> string option \<Rightarrow> hathor_event" where
  "new_tx tags dataType = \<lparr>event_type = ''wallet:new-tx'', event_tx = tagged_tx tags dataType\<rparr>"

definition brokers_ok :: "bool \<Rightarrow> string list \<Rightarrow> brokers" where
  "brokers_ok confirmed sigs =
     \<lparr>isTxConfirmed = (\<lambda>k i. Inr confirmed),
      sendMySignaturesToProposal = (\<lambda>k h i. Inr ()),
      getSignaturesToPush = (\<lambda>k i. Inr \<lparr>hex = ''0001'', signatures = sigs\<rparr>),
      signAndPushProposal = (\<lambda>k h i s. Inr ()),
      sendTokensFromHathor = (\<lambda>r v t i s ts. Inr True),
      sendTokensToHathor = (\<lambda>r q t h. Inr ())\<rparr>"

definition brokers_failing :: "js_error \<Rightarrow> brokers" where
  "brokers_failing err =
     \<lparr>isTxConfirmed = (\<lambda>k i. Inr True),
      sendMySignaturesToProposal = (\<lambda>k h i. Inl err),
      getSignaturesToPush = (\<lambda>k i. Inl err),
      signAndPushProposal = (\<lambda>k h i s. Inl err),
      sendTokensFromHathor = (\<lambda>r v t i s ts. Inl err),
      sendTokensToHathor = (\<lambda>r q t h. Inl err)\<rparr>"

subsection \<open>The payload codec\<close>

text \<open>
  Output \<open>i\<close> of \<open>arraySize\<close> as the specification writes it,
  \<open>{typeTag}{chunkIndex}{totalChunks}{chunkBody}\<close>, with a body of at most 145 characters;
  and a decoded chunk with a given total and body.
\<close>

definition wrapped :: "string \<Rightarrow> string \<Rightarrow> nat \<Rightarrow> nat \<Rightarrow> tx_output" where
  "wrapped dataType dat arraySize i =
     DataOutput (dataType @ show_nat i @ show_nat arraySize @ take 145 (drop (i * 145) dat))"

definition chunk_of :: "nat \<Rightarrow> (nat \<Rightarrow> string) \<Rightarrow> nat \<Rightarrow> chunk" where
  "chunk_of t b i = \<lparr>chunkIndex = i, totalChunks = t, chunkBody = b i\<rparr>"

text \<open>A wallet service that is ready and answers every request; the multisig address is \<open>WmultiSig\<close>.\<close>

definition wallet_up :: service where
  "wallet_up =
     \<lparr>getStatus = (\<lambda>tr. status_reply True WALLET_STATUS_READY ''Ready''),
      postStart = (\<lambda>tr. ok_reply),
      postMintTokens = (\<lambda>tr. Inr \<lparr>status = 200, statusText = ''OK'',
         data = \<lparr>success = True, message = None, error = None, errorCode = None, txHex = ''0001''\<rparr>\<rparr>),
      getAddress = (\<lambda>tr. Inr \<lparr>status = 200, statusText = ''OK'',
         data = \<lparr>success = True, message = None, error = None, errorCode = None,
                  address = ''WmultiSig''\<rparr>\<rparr>),
      postSendTx = (\<lambda>tr. ok_reply)\<rparr>"

section \<open>The transaction identifier\<close>

lemma length_packed32: "length (packed32 w) = 32"
  by (simp add: packed32_def)

lemma packed32_nth: "i < 32 \<Longrightarrow> packed32 w ! i = ucast (drop_bit (8 * (31 - i)) w)"
  unfolding packed32_def by (simp del: upt_Suc)

text \<open>Bit \<open>n\<close> of a word is bit \<open>n mod 8\<close> of octet \<open>31 - n div 8\<close> of its encoding.\<close>

lemma packed32_bit:
  assumes "n < 256"
  shows "bit w n = bit (packed32 w ! (31 - n div 8)) (n mod 8)"
proof -
  have i: "31 - n div 8 < 32" by simp
  have k: "8 * (31 - (31 - n div 8)) = 8 * (n div 8)" using assms by simp
  have "bit (packed32 w ! (31 - n div 8)) (n mod 8) = bit w (8 * (n div 8) + n mod 8)"
    unfolding packed32_nth [OF i] k
    by (simp add: bit_ucast_iff bit_drop_bit_eq)
  then show ?thesis by simp
qed

lemma packed32_inject: "packed32 a = packed32 b \<Longrightarrow> a = b"
proof (rule bit_word_eqI)
  fix n assume eq: "packed32 a = packed32 b" and "n < LENGTH(256)"
  then have n: "n < 256" by simp
  show "bit a n = bit b n"
    unfolding packed32_bit [OF n] eq ..
qed

lemma Flow_uint8_inject: "Flow_uint8 f = Flow_uint8 g \<Longrightarrow> f = g"
  by (cases f; cases g) simp_all

text \<open>The packed encoding is 161 octets long and determines the six fields.\<close>

lemma length_encodePacked: "length (encodePacked a b c d e f) = 161"
  by (simp add: encodePacked_def length_packed32)

lemma encodePacked_inject:
  "encodePacked a b c d e f = encodePacked a' b' c' d' e' f' \<Longrightarrow>
     a = a' \<and> b = b' \<and> c = c' \<and> d = d' \<and> e = e' \<and> f = f'"
  unfolding encodePacked_def
  by (auto simp: length_packed32 dest: packed32_inject Flow_uint8_inject)

text \<open>
  C1. For a caller that is a member, \<open>getTransactionId\<close> returns the hash of the packed
  concatenation originalTokenAddress, sender, receiver, value, transactionHash, flow, and
  leaves the storage as it is; \<open>sendTransactionProposal\<close>, \<open>updateSignatureState\<close> and
  \<open>updateTransactionState\<close> test and write their flags, and emit their events, under that
  same identifier.
\<close>

theorem transactionId_every_entry_point:
  assumes "isMember st c" and "tid = transactionId_spec H a t v s r f"
  shows "getTransactionId H st c a t v s r f = Inr (tid, st) \<and>
    sendTransactionProposal H st c a t v s r f x =
      (if isProposed st tid then Inl (Revert ''HathorTransactions: already proposed'')
       else Inr (st\<lparr>transactionHex := (transactionHex st)(tid := x),
                   isProposed := (isProposed st)(tid := True),
                   events := events st @ [TransactionProposed tid t x]\<rparr>)) \<and>
    updateSignatureState H st c a t v s r f g b =
      (if isSigned st tid c then Inl (Revert ''HathorTransactions: Transaction already signed'')
       else Inr (st\<lparr>isSigned := (isSigned st)(tid := (isSigned st tid)(c := b)),
                   transactionSignatures :=
                     (transactionSignatures st)(tid := transactionSignatures st tid @ [g]),
                   events := events st @ [ProposalSigned tid c b g]\<rparr>)) \<and>
    updateTransactionState H st c a t v s r f b =
      (if isProcessed st tid then Inl (Revert ''HathorTransactions: Transaction already sent'')
       else Inr (st\<lparr>isProcessed := (isProcessed st)(tid := b),
                   events := events st @ [ProposalSent tid b]\<rparr>))"
  using assms
  by (simp add: getTransactionId_def sendTransactionProposal_def updateSignatureState_def
      updateTransactionState_def onlyMember_def transactionId_spec_def encodePacked_def Let_def)

theorem transactionId_every_entry_point_witness:
  "isMember federation1 1 \<and>
   161 = transactionId_spec (\<lambda>bs. of_nat (length bs)) 5 6 7 8 9 MINT \<and>
   getTransactionId (\<lambda>bs. of_nat (length bs)) federation1 1 5 6 7 8 9 MINT = Inr (161, federation1) \<and>
   isProposed
     (projr (sendTransactionProposal (\<lambda>bs. of_nat (length bs)) federation1 1 5 6 7 8 9 MINT [3])) 161"
proof -
  have m: "isMember federation1 1"
    by (simp add: federation1_def storage0_def run_def step_def initialize_def initializer_def
        MAX_MEMBER_COUNT_def NULL_ADDRESS_def)
  have i: "161 = transactionId_spec (\<lambda>bs. of_nat (length bs)) 5 6 7 8 9 MINT"
    by (simp add: transactionId_spec_def length_packed32)
  have p: "\<not> isProposed federation1 161"
    by (simp add: federation1_def storage0_def run_def step_def initialize_def initializer_def
        MAX_MEMBER_COUNT_def NULL_ADDRESS_def)
  show ?thesis
    using transactionId_every_entry_point [OF m i, of "[3]"] m i p by simp
qed

section \<open>The flags of the ledger\<close>

lemma initialize_loop_flags:
  "initialize_loop st ms = Inr st' \<Longrightarrow>
     isProposed st' = isProposed st \<and> isSigned st' = isSigned st \<and> isProcessed st' = isProcessed st"
  by (induction st ms rule: initialize_loop.induct) (auto split: if_splits)

lemma initialize_flags:
  "initialize st ms ow = Inr st' \<Longrightarrow>
     isProposed st' = isProposed st \<and> isSigned st' = isSigned st \<and> isProcessed st' = isProcessed st"
  by (auto simp: initialize_def split: if_splits dest!: initialize_loop_flags)

lemma exec_isProposed: "exec H st c k = Inr st' \<Longrightarrow> isProposed st i \<Longrightarrow> isProposed st' i"
  by (cases k)
    (auto simp: getTransactionId_def sendTransactionProposal_def updateSignatureState_def
      updateTransactionState_def addMember_def removeMember_def Let_def
      split: if_splits dest: initialize_flags)

lemma exec_isSigned: "exec H st c k = Inr st' \<Longrightarrow> isSigned st i m \<Longrightarrow> isSigned st' i m"
  by (cases k)
    (auto simp: getTransactionId_def sendTransactionProposal_def updateSignatureState_def
      updateTransactionState_def addMember_def removeMember_def Let_def
      split: if_splits dest: initialize_flags)

lemma exec_isProcessed: "exec H st c k = Inr st' \<Longrightarrow> isProcessed st i \<Longrightarrow> isProcessed st' i"
  by (cases k)
    (auto simp: getTransactionId_def sendTransactionProposal_def updateSignatureState_def
      updateTransactionState_def addMember_def removeMember_def Let_def
      split: if_splits dest: initialize_flags)

lemma step_flags:
  "(isProposed st i \<longrightarrow> isProposed (step H st tx) i) \<and>
   (isSigned st i m \<longrightarrow> isSigned (step H st tx) i m) \<and>
   (isProcessed st i \<longrightarrow> isProcessed (step H st tx) i)"
  by (auto simp: step_def split: sum.splits
      dest: exec_isProposed exec_isSigned exec_isProcessed)

lemma run_flags:
  "(isProposed st i \<longrightarrow> isProposed (run H st txs) i) \<and>
   (isSigned st i m \<longrightarrow> isSigned (run H st txs) i m) \<and>
   (isProcessed st i \<longrightarrow> isProcessed (run H st txs) i)"
  unfolding run_def
proof (induction txs arbitrary: st)
  case Nil
  show ?case by simp
next
  case (Cons tx txs)
  show ?case using step_flags [of st i H tx m] Cons.IH [of "step H st tx"] by simp
qed

text \<open>
  C3 (amended). Over any sequence of calls, reverted or not, a flag \<open>isProposed\<close>,
  \<open>isSigned\<close> or \<open>isProcessed\<close> that is true stays true. \<open>sendTransactionProposal\<close>
  reverts if \<open>isProposed\<close> is true for the transfer, \<open>updateSignatureState\<close> if \<open>isSigned\<close>
  is true for the transfer and the caller, \<open>updateTransactionState\<close> if \<open>isProcessed\<close> is
  true for the transfer. After a successful
  \<open>sendTransactionProposal\<close>, every later one for the same transfer reverts; after a
  successful \<open>updateSignatureState\<close> with \<open>signed = true\<close>, every later one by the same
  member for the same transfer reverts; after a successful \<open>updateTransactionState\<close> with
  \<open>sent = true\<close>, every later one for the same transfer reverts.
\<close>

theorem flags_one_way:
  "(isProposed st i \<longrightarrow> isProposed (run H st txs) i) \<and>
   (isSigned st i m \<longrightarrow> isSigned (run H st txs) i m) \<and>
   (isProcessed st i \<longrightarrow> isProcessed (run H st txs) i) \<and>
   (isProposed st (transactionId_spec H a t v s r f) \<longrightarrow>
      isl (sendTransactionProposal H st c' a t v s r f x')) \<and>
   (isSigned st (transactionId_spec H a t v s r f) c \<longrightarrow>
      isl (updateSignatureState H st c a t v s r f g' b)) \<and>
   (isProcessed st (transactionId_spec H a t v s r f) \<longrightarrow>
      isl (updateTransactionState H st c' a t v s r f b)) \<and>
   (sendTransactionProposal H st0 c a t v s r f x = Inr stp \<longrightarrow>
      isl (sendTransactionProposal H (run H stp txs) c' a t v s r f x')) \<and>
   (updateSignatureState H st0 c a t v s r f g True = Inr sts \<longrightarrow>
      isl (updateSignatureState H (run H sts txs) c a t v s r f g' b)) \<and>
   (updateTransactionState H st0 c a t v s r f True = Inr stx \<longrightarrow>
      isl (updateTransactionState H (run H stx txs) c' a t v s r f b))"
proof -
  let ?i = "H (encodePacked a s r v t f)"
  have p: "sendTransactionProposal H st0 c a t v s r f x = Inr stp \<Longrightarrow> isProposed stp ?i"
    by (auto simp: sendTransactionProposal_def Let_def split: if_splits)
  have g: "updateSignatureState H st0 c a t v s r f g True = Inr sts \<Longrightarrow> isSigned sts ?i c"
    by (auto simp: updateSignatureState_def Let_def split: if_splits)
  have d: "updateTransactionState H st0 c a t v s r f True = Inr stx \<Longrightarrow> isProcessed stx ?i"
    by (auto simp: updateTransactionState_def Let_def split: if_splits)
  have p': "isProposed st'' ?i \<Longrightarrow> isl (sendTransactionProposal H st'' c' a t v s r f x')" for st''
    by (simp add: sendTransactionProposal_def Let_def)
  have g': "isSigned st'' ?i c \<Longrightarrow> isl (updateSignatureState H st'' c a t v s r f g' b)" for st''
    by (simp add: updateSignatureState_def Let_def)
  have d': "isProcessed st'' ?i \<Longrightarrow> isl (updateTransactionState H st'' c' a t v s r f b)" for st''
    by (simp add: updateTransactionState_def Let_def)
  have i: "transactionId_spec H a t v s r f = ?i"
    by (simp add: transactionId_spec_def encodePacked_def)
  show ?thesis
    unfolding i
    using run_flags [of st i H txs m] run_flags [of stp ?i H txs] run_flags [of sts ?i H txs c]
      run_flags [of stx ?i H txs] p g d p' g' d'
    by blast
qed

text \<open>The definitions that evaluate calls to the contract.\<close>

lemmas ledger_defs = run_def step_def initialize_def initializer_def MAX_MEMBER_COUNT_def
  NULL_ADDRESS_def sendTransactionProposal_def updateSignatureState_def
  updateTransactionState_def onlyMember_def Let_def

theorem flags_one_way_witness:
  "isProposed settled1 0 \<and> isProposed (run (\<lambda>_. 0) settled1 later_calls) 0 \<and>
   isSigned settled1 0 1 \<and> isSigned (run (\<lambda>_. 0) settled1 later_calls) 0 1 \<and>
   isProcessed settled1 0 \<and> isProcessed (run (\<lambda>_. 0) settled1 later_calls) 0 \<and>
   isl (sendTransactionProposal (\<lambda>_. 0) settled1 2 0 0 0 0 0 MINT [6]) \<and>
   isl (updateSignatureState (\<lambda>_. 0) settled1 1 0 0 0 0 0 MINT [4] True) \<and>
   isl (updateTransactionState (\<lambda>_. 0) settled1 2 0 0 0 0 0 MINT True) \<and>
   sendTransactionProposal (\<lambda>_. 0) federation1 1 0 0 0 0 0 MINT [3] = Inr proposed1 \<and>
   isl (sendTransactionProposal (\<lambda>_. 0) (run (\<lambda>_. 0) proposed1 later_calls) 2 0 0 0 0 0 MINT [6]) \<and>
   updateSignatureState (\<lambda>_. 0) federation1 1 0 0 0 0 0 MINT [4] True = Inr signed1 \<and>
   isl (updateSignatureState (\<lambda>_. 0) (run (\<lambda>_. 0) signed1 later_calls) 1 0 0 0 0 0 MINT [4] True) \<and>
   updateTransactionState (\<lambda>_. 0) federation1 1 0 0 0 0 0 MINT True = Inr processed1 \<and>
   isl (updateTransactionState (\<lambda>_. 0) (run (\<lambda>_. 0) processed1 later_calls) 2 0 0 0 0 0 MINT True)"
proof -
  have h1: "isProposed settled1 0" "isSigned settled1 0 1" "isProcessed settled1 0"
    by (simp_all add: ledger_defs federation1_def storage0_def settled1_def)
  have h2: "sendTransactionProposal (\<lambda>_. 0) federation1 1 0 0 0 0 0 MINT [3] = Inr proposed1"
    by (simp add: ledger_defs federation1_def storage0_def proposed1_def)
  have h3: "updateSignatureState (\<lambda>_. 0) federation1 1 0 0 0 0 0 MINT [4] True = Inr signed1"
    by (simp add: ledger_defs federation1_def storage0_def signed1_def)
  have h4: "updateTransactionState (\<lambda>_. 0) federation1 1 0 0 0 0 0 MINT True = Inr processed1"
    by (simp add: ledger_defs federation1_def storage0_def processed1_def)
  show ?thesis
    using h1 h2 h3 h4
      flags_one_way [where st = settled1 and i = 0 and m = 1 and H = "\<lambda>_. 0" and txs = later_calls
        and ?st0.0 = federation1 and c = 1 and a = 0 and t = 0 and v = 0 and s = 0 and r = 0
        and f = MINT and x = "[3]" and stp = proposed1 and c' = 2 and x' = "[6]"
        and g = "[4]" and sts = signed1 and g' = "[4]" and b = True and stx = processed1]
    by (simp add: transactionId_spec_def)
qed

text \<open>
  C3 as stated fails: \<open>updateSignatureState\<close> stores its argument \<open>signed\<close>. After a call
  with \<open>signed = false\<close> the flag is still false, a second call by the same member for the
  same transfer does not revert, and the signature is recorded twice.
\<close>

theorem second_signature_counterexample:
  "\<not> isl (updateSignatureState (\<lambda>_. 0) federation1 1 0 0 0 0 0 MINT [1] False) \<and>
   \<not> isl (updateSignatureState (\<lambda>_. 0)
           (run (\<lambda>_. 0) federation1 [(1, UpdateSignatureState 0 0 0 0 0 MINT [1] False)])
           1 0 0 0 0 0 MINT [1] False) \<and>
   transactionSignatures
     (run (\<lambda>_. 0) federation1
        [(1, UpdateSignatureState 0 0 0 0 0 MINT [1] False),
         (1, UpdateSignatureState 0 0 0 0 0 MINT [1] False)]) 0 = [[1], [1]]"
  by (simp add: ledger_defs federation1_def storage0_def)

section \<open>Wallet readiness\<close>

text \<open>One round of \<open>isWalletReady\<close>, with the wallet id and the seed key named.\<close>

lemma isWalletReady_eq:
  "isWalletReady svc cfg tr multisig retry =
     (if retry > 3 then (tr, Inr (Some False))
      else
        case getStatus svc (tr @ [GetStatus (walletId cfg multisig)]) of
          Inl e \<Rightarrow> (tr @ [GetStatus (walletId cfg multisig)],
                    Inl (Error (''Fail to get status of '' @ walletId cfg multisig @ '' wallet: '' @ e)))
        | Inr response \<Rightarrow>
            if statusCode (data response) = 3 then (tr @ [GetStatus (walletId cfg multisig)], Inr (Some True))
            else if statusCode (data response) = 1 \<or> statusCode (data response) = 2
            then isWalletReady svc cfg (tr @ [GetStatus (walletId cfg multisig), Delay 3000]) multisig (retry + 1)
            else if \<not> success (data response) \<and> statusMessage (data response) = []
            then (case postStart svc (tr @ [GetStatus (walletId cfg multisig),
                         PostStart (walletId cfg multisig) (seedKeyOf cfg multisig) multisig]) of
                    Inl e \<Rightarrow>
                      (tr @ [GetStatus (walletId cfg multisig),
                             PostStart (walletId cfg multisig) (seedKeyOf cfg multisig) multisig],
                       Inl (Error (''Fail to get status of '' @ walletId cfg multisig @ '' wallet: '' @
                                   ''Error: Fail to start wallet: '' @ e)))
                  | Inr started \<Rightarrow>
                      isWalletReady svc cfg
                        (tr @ [GetStatus (walletId cfg multisig),
                               PostStart (walletId cfg multisig) (seedKeyOf cfg multisig) multisig,
                               Delay 3000]) multisig (retry + 1))
            else (tr @ [GetStatus (walletId cfg multisig)], Inr None))"
  by (subst isWalletReady.simps)
    (simp add: Let_def walletId_def [symmetric] seedKeyOf_def [symmetric] startWallet_def
      WALLET_STATUS_SYNCING_def WALLET_STATUS_READY_def WALLET_STATUS_CONNECTING_def
      split: sum.split split del: if_split cong: if_cong)

lemma isWalletReady_syncing:
  assumes "retry \<le> 3"
    and "reports svc (tr @ [GetStatus (walletId cfg multisig)]) WALLET_STATUS_SYNCING"
  shows "isWalletReady svc cfg tr multisig retry =
     isWalletReady svc cfg (tr @ [GetStatus (walletId cfg multisig), Delay 3000]) multisig (retry + 1)"
proof -
  obtain response where "getStatus svc (tr @ [GetStatus (walletId cfg multisig)]) = Inr response"
    and "statusCode (data response) = 2"
    using assms(2) by (auto simp: reports_def WALLET_STATUS_SYNCING_def split: sum.splits)
  then show ?thesis
    using assms(1) by (subst isWalletReady_eq) simp
qed

lemma isWalletReady_ready:
  assumes "retry \<le> 3"
    and "reports svc (tr @ [GetStatus (walletId cfg multisig)]) WALLET_STATUS_READY"
  shows "isWalletReady svc cfg tr multisig retry =
     (tr @ [GetStatus (walletId cfg multisig)], Inr (Some True))"
proof -
  obtain response where "getStatus svc (tr @ [GetStatus (walletId cfg multisig)]) = Inr response"
    and "statusCode (data response) = 3"
    using assms(2) by (auto simp: reports_def WALLET_STATUS_READY_def split: sum.splits)
  then show ?thesis
    using assms(1) by (subst isWalletReady_eq) simp
qed

lemma isWalletReady_exhausted:
  "retry > 3 \<Longrightarrow> isWalletReady svc cfg tr multisig retry = (tr, Inr (Some False))"
  by (subst isWalletReady_eq) simp

lemma isWalletReady_stopped:
  assumes "retry \<le> 3"
    and "looks_stopped svc (tr @ [GetStatus (walletId cfg multisig)])"
  shows "isWalletReady svc cfg tr multisig retry =
     (case postStart svc (tr @ [GetStatus (walletId cfg multisig),
                     PostStart (walletId cfg multisig) (seedKeyOf cfg multisig) multisig]) of
         Inl e \<Rightarrow>
           (tr @ [GetStatus (walletId cfg multisig),
                  PostStart (walletId cfg multisig) (seedKeyOf cfg multisig) multisig],
            Inl (Error (''Fail to get status of '' @ walletId cfg multisig @ '' wallet: '' @
                        ''Error: Fail to start wallet: '' @ e)))
       | Inr response \<Rightarrow>
           isWalletReady svc cfg
             (tr @ [GetStatus (walletId cfg multisig),
                    PostStart (walletId cfg multisig) (seedKeyOf cfg multisig) multisig,
                    Delay 3000]) multisig (retry + 1))"
proof -
  obtain response where "getStatus svc (tr @ [GetStatus (walletId cfg multisig)]) = Inr response"
    and "statusCode (data response) \<noteq> 3" "statusCode (data response) \<noteq> 1"
    "statusCode (data response) \<noteq> 2" "\<not> success (data response)"
    "statusMessage (data response) = []"
    using assms(2)
    by (auto simp: looks_stopped_def WALLET_STATUS_SYNCING_def WALLET_STATUS_READY_def
        WALLET_STATUS_CONNECTING_def split: sum.splits)
  then show ?thesis
    using assms(1) by (subst isWalletReady_eq) simp
qed

text \<open>Each attempt polls once, and the attempts are numbered up to 3.\<close>

lemma isWalletReady_budget_aux:
  "nat (4 - retry) = n \<Longrightarrow>
   length (filter is_poll (fst (isWalletReady svc cfg tr multisig retry))) \<le>
     length (filter is_poll tr) + n"
proof (induction n arbitrary: retry tr)
  case 0
  then have "retry > 3" by simp
  then show ?case by (simp add: isWalletReady_exhausted)
next
  case (Suc n)
  then have r: "\<not> retry > 3" and n: "nat (4 - (retry + 1)) = n" by simp_all
  note ih = Suc.IH [OF n]
  show ?case
  proof (cases "getStatus svc (tr @ [GetStatus (walletId cfg multisig)])")
    case (Inl e)
    then show ?thesis using r by (subst isWalletReady_eq) simp
  next
    case (Inr response)
    show ?thesis
    proof (cases "postStart svc (tr @ [GetStatus (walletId cfg multisig),
                     PostStart (walletId cfg multisig) (seedKeyOf cfg multisig) multisig])")
      case (Inl e)
      then show ?thesis
        using r Inr ih [of "tr @ [GetStatus (walletId cfg multisig), Delay 3000]"]
        by (subst isWalletReady_eq) simp
    next
      case (Inr started)
      then show ?thesis
        using r \<open>getStatus svc (tr @ [GetStatus (walletId cfg multisig)]) = Inr response\<close>
          ih [of "tr @ [GetStatus (walletId cfg multisig), Delay 3000]"]
          ih [of "tr @ [GetStatus (walletId cfg multisig),
                     PostStart (walletId cfg multisig) (seedKeyOf cfg multisig) multisig, Delay 3000]"]
        by (subst isWalletReady_eq) simp
    qed
  qed
qed

text \<open>From attempt 1, \<open>isWalletReady\<close> polls the status at most three times.\<close>

lemma isWalletReady_budget:
  "length (filter is_poll (fst (isWalletReady svc cfg tr multisig 1))) \<le> length (filter is_poll tr) + 3"
  using isWalletReady_budget_aux [of 1 3 svc cfg tr multisig] by simp

text \<open>
  C8. From attempt 1, with a delay of 3000 ms after each poll that reports SYNCING: a wallet
  that reports SYNCING twice and then READY gives \<open>true\<close> after three polls and two delays;
  a wallet that reports SYNCING at the three polls gives \<open>false\<close> after three polls and three
  delays, and nothing is thrown; a poll that finds the wallet stopped, at an attempt within
  the budget, is followed by a start request, the delay, and the next attempt.
\<close>

theorem isWalletReady_polling:
  "(reports svc (tr @ [GetStatus (walletId cfg multisig)]) WALLET_STATUS_SYNCING \<and>
    reports svc (tr @ [GetStatus (walletId cfg multisig), Delay 3000,
                       GetStatus (walletId cfg multisig)]) WALLET_STATUS_SYNCING \<and>
    reports svc (tr @ [GetStatus (walletId cfg multisig), Delay 3000,
                       GetStatus (walletId cfg multisig), Delay 3000,
                       GetStatus (walletId cfg multisig)]) WALLET_STATUS_READY \<longrightarrow>
    isWalletReady svc cfg tr multisig 1 =
      (tr @ [GetStatus (walletId cfg multisig), Delay 3000,
             GetStatus (walletId cfg multisig), Delay 3000,
             GetStatus (walletId cfg multisig)], Inr (Some True))) \<and>
   (reports svc' (tr @ [GetStatus (walletId cfg multisig)]) WALLET_STATUS_SYNCING \<and>
    reports svc' (tr @ [GetStatus (walletId cfg multisig), Delay 3000,
                        GetStatus (walletId cfg multisig)]) WALLET_STATUS_SYNCING \<and>
    reports svc' (tr @ [GetStatus (walletId cfg multisig), Delay 3000,
                        GetStatus (walletId cfg multisig), Delay 3000,
                        GetStatus (walletId cfg multisig)]) WALLET_STATUS_SYNCING \<longrightarrow>
    isWalletReady svc' cfg tr multisig 1 =
      (tr @ [GetStatus (walletId cfg multisig), Delay 3000,
             GetStatus (walletId cfg multisig), Delay 3000,
             GetStatus (walletId cfg multisig), Delay 3000], Inr (Some False))) \<and>
   (retry \<le> 3 \<and> looks_stopped svc'' (tr @ [GetStatus (walletId cfg multisig)]) \<longrightarrow>
    isWalletReady svc'' cfg tr multisig retry =
      (case postStart svc'' (tr @ [GetStatus (walletId cfg multisig),
                     PostStart (walletId cfg multisig) (seedKeyOf cfg multisig) multisig]) of
         Inl e \<Rightarrow>
           (tr @ [GetStatus (walletId cfg multisig),
                  PostStart (walletId cfg multisig) (seedKeyOf cfg multisig) multisig],
            Inl (Error (''Fail to get status of '' @ walletId cfg multisig @ '' wallet: '' @
                        ''Error: Fail to start wallet: '' @ e)))
       | Inr response \<Rightarrow>
           isWalletReady svc'' cfg
             (tr @ [GetStatus (walletId cfg multisig),
                    PostStart (walletId cfg multisig) (seedKeyOf cfg multisig) multisig,
                    Delay 3000]) multisig (retry + 1)))"
proof (intro conjI impI)
  let ?g = "GetStatus (walletId cfg multisig)"
  assume h: "reports svc (tr @ [?g]) WALLET_STATUS_SYNCING \<and>
    reports svc (tr @ [?g, Delay 3000, ?g]) WALLET_STATUS_SYNCING \<and>
    reports svc (tr @ [?g, Delay 3000, ?g, Delay 3000, ?g]) WALLET_STATUS_READY"
  have "isWalletReady svc cfg tr multisig 1 = isWalletReady svc cfg (tr @ [?g, Delay 3000]) multisig 2"
    using isWalletReady_syncing [of 1 svc tr cfg multisig] h by simp
  also have "\<dots> = isWalletReady svc cfg (tr @ [?g, Delay 3000, ?g, Delay 3000]) multisig 3"
    using isWalletReady_syncing [of 2 svc "tr @ [?g, Delay 3000]" cfg multisig] h by simp
  also have "\<dots> = (tr @ [?g, Delay 3000, ?g, Delay 3000, ?g], Inr (Some True))"
    using isWalletReady_ready [of 3 svc "tr @ [?g, Delay 3000, ?g, Delay 3000]" cfg multisig] h by simp
  finally show "isWalletReady svc cfg tr multisig 1 =
      (tr @ [?g, Delay 3000, ?g, Delay 3000, ?g], Inr (Some True))" .
next
  let ?g = "GetStatus (walletId cfg multisig)"
  assume h: "reports svc' (tr @ [?g]) WALLET_STATUS_SYNCING \<and>
    reports svc' (tr @ [?g, Delay 3000, ?g]) WALLET_STATUS_SYNCING \<and>
    reports svc' (tr @ [?g, Delay 3000, ?g, Delay 3000, ?g]) WALLET_STATUS_SYNCING"
  have "isWalletReady svc' cfg tr multisig 1 = isWalletReady svc' cfg (tr @ [?g, Delay 3000]) multisig 2"
    using isWalletReady_syncing [of 1 svc' tr cfg multisig] h by simp
  also have "\<dots> = isWalletReady svc' cfg (tr @ [?g, Delay 3000, ?g, Delay 3000]) multisig 3"
    using isWalletReady_syncing [of 2 svc' "tr @ [?g, Delay 3000]" cfg multisig] h by simp
  also have "\<dots> = isWalletReady svc' cfg (tr @ [?g, Delay 3000, ?g, Delay 3000, ?g, Delay 3000]) multisig 4"
    using isWalletReady_syncing [of 3 svc' "tr @ [?g, Delay 3000, ?g, Delay 3000]" cfg multisig] h by simp
  also have "\<dots> = (tr @ [?g, Delay 3000, ?g, Delay 3000, ?g, Delay 3000], Inr (Some False))"
    by (rule isWalletReady_exhausted) simp
  finally show "isWalletReady svc' cfg tr multisig 1 =
      (tr @ [?g, Delay 3000, ?g, Delay 3000, ?g, Delay 3000], Inr (Some False))" .
next
  assume h: "retry \<le> 3 \<and> looks_stopped svc'' (tr @ [GetStatus (walletId cfg multisig)])"
  then show "isWalletReady svc'' cfg tr multisig retry =
      (case postStart svc'' (tr @ [GetStatus (walletId cfg multisig),
                     PostStart (walletId cfg multisig) (seedKeyOf cfg multisig) multisig]) of
         Inl e \<Rightarrow>
           (tr @ [GetStatus (walletId cfg multisig),
                  PostStart (walletId cfg multisig) (seedKeyOf cfg multisig) multisig],
            Inl (Error (''Fail to get status of '' @ walletId cfg multisig @ '' wallet: '' @
                        ''Error: Fail to start wallet: '' @ e)))
       | Inr response \<Rightarrow>
           isWalletReady svc'' cfg
             (tr @ [GetStatus (walletId cfg multisig),
                    PostStart (walletId cfg multisig) (seedKeyOf cfg multisig) multisig,
                    Delay 3000]) multisig (retry + 1))"
    using isWalletReady_stopped [of retry svc'' tr cfg multisig] by simp
qed

theorem isWalletReady_polling_witness:
  "isWalletReady (scripted [syncing, syncing, ready]) config1 [] True 1 =
     ([GetStatus ''multi'', Delay 3000, GetStatus ''multi'', Delay 3000, GetStatus ''multi''],
      Inr (Some True)) \<and>
   isWalletReady (scripted [syncing]) config1 [] False 1 =
     ([GetStatus ''single'', Delay 3000, GetStatus ''single'', Delay 3000, GetStatus ''single'',
       Delay 3000], Inr (Some False)) \<and>
   looks_stopped (scripted [stopped, ready]) [GetStatus ''multi''] \<and>
   isWalletReady (scripted [stopped, ready]) config1 [] True 1 =
     ([GetStatus ''multi'', PostStart ''multi'' ''multisig'' True, Delay 3000, GetStatus ''multi''],
      Inr (Some True))"
proof -
  have a: "reports (scripted [syncing, syncing, ready]) [GetStatus ''multi''] WALLET_STATUS_SYNCING"
    "reports (scripted [syncing, syncing, ready])
       [GetStatus ''multi'', Delay 3000, GetStatus ''multi''] WALLET_STATUS_SYNCING"
    "reports (scripted [syncing, syncing, ready])
       [GetStatus ''multi'', Delay 3000, GetStatus ''multi'', Delay 3000, GetStatus ''multi'']
       WALLET_STATUS_READY"
    by (simp_all add: reports_def scripted_def status_reply_def syncing_def ready_def
        WALLET_STATUS_SYNCING_def WALLET_STATUS_READY_def)
  have b: "reports (scripted [syncing]) [GetStatus ''single''] WALLET_STATUS_SYNCING"
    "reports (scripted [syncing])
       [GetStatus ''single'', Delay 3000, GetStatus ''single''] WALLET_STATUS_SYNCING"
    "reports (scripted [syncing])
       [GetStatus ''single'', Delay 3000, GetStatus ''single'', Delay 3000, GetStatus ''single'']
       WALLET_STATUS_SYNCING"
    by (simp_all add: reports_def scripted_def status_reply_def syncing_def ready_def
        WALLET_STATUS_SYNCING_def WALLET_STATUS_READY_def)
  have c: "looks_stopped (scripted [stopped, ready]) [GetStatus ''multi'']"
    by (simp add: looks_stopped_def scripted_def status_reply_def stopped_def
        WALLET_STATUS_SYNCING_def WALLET_STATUS_READY_def WALLET_STATUS_CONNECTING_def)
  have d: "reports (scripted [stopped, ready])
       [GetStatus ''multi'', PostStart ''multi'' ''multisig'' True, Delay 3000, GetStatus ''multi'']
       WALLET_STATUS_READY"
    by (simp add: reports_def scripted_def status_reply_def ready_def WALLET_STATUS_READY_def)
  have w: "walletId config1 True = ''multi''" "walletId config1 False = ''single''"
    "seedKeyOf config1 True = ''multisig''"
    by (simp_all add: walletId_def seedKeyOf_def config1_def)
  have s: "postStart (scripted [stopped, ready]) tr = ok_reply" for tr
    by (simp add: scripted_def)
  have e: "isWalletReady (scripted [stopped, ready]) config1
       [GetStatus ''multi'', PostStart ''multi'' ''multisig'' True, Delay 3000] True 2 =
     ([GetStatus ''multi'', PostStart ''multi'' ''multisig'' True, Delay 3000, GetStatus ''multi''],
      Inr (Some True))"
    using isWalletReady_ready [of 2 "scripted [stopped, ready]"
        "[GetStatus ''multi'', PostStart ''multi'' ''multisig'' True, Delay 3000]" config1 True] d
    by (simp add: w)
  show ?thesis
    using a b c e
      isWalletReady_polling [where svc = "scripted [syncing, syncing, ready]" and cfg = config1
        and tr = "[]" and multisig = True]
      isWalletReady_polling [where svc' = "scripted [syncing]" and cfg = config1
        and tr = "[]" and multisig = False]
      isWalletReady_polling [where svc'' = "scripted [stopped, ready]" and cfg = config1
        and tr = "[]" and multisig = True and retry = 1]
    by (simp add: w s ok_reply_def)
qed

section \<open>sendTokensToHathor\<close>

text \<open>
  C10. For a federator whose \<open>multisigOrder\<close> is greater than 1, \<open>sendTokensToHathor\<close> of
  the wallet client and of the service return without an action, a broker call or an error.
\<close>

theorem sendTokensToHathor_later_federator:
  "multisigOrder cfg > 1 \<Longrightarrow>
     HathorWallet_sendTokensToHathor svc cfg tr receiverAddress qtd tokenAddress txId = (tr, Inr ()) \<and>
     HathorService_sendTokensToHathor b cfg receiverAddress qtd tokenAddress txHash = ([], Inr ())"
  by (simp add: HathorWallet_sendTokensToHathor_def HathorService_sendTokensToHathor_def)

theorem sendTokensToHathor_later_federator_witness:
  "multisigOrder config2 > 1 \<and>
   HathorWallet_sendTokensToHathor (scripted [ready]) config2 [] ''WdQ9'' ''100'' ''0xabc'' ''0xdef''
     = ([], Inr ()) \<and>
   HathorService_sendTokensToHathor no_brokers config2 ''WdQ9'' ''100'' ''0xabc'' ''0xdef''
     = ([], Inr ())"
proof -
  have h: "multisigOrder config2 > 1"
    by (simp add: config2_def config1_def)
  show ?thesis
    using h sendTokensToHathor_later_federator [OF h] by simp
qed

text \<open>
  The first federator does call out: the wallet client polls both wallets, reads the token
  mapping and posts the proposal; the service calls the EVM broker.
\<close>

lemma sendTokensToHathor_first_federator:
  "HathorService_sendTokensToHathor no_brokers config1 ''WdQ9'' ''100'' ''0xabc'' ''0xdef'' =
     ([SendTokensToHathor ''WdQ9'' ''100'' ''0xabc'' ''0xdef''], Inl (Error ''unreachable'')) \<and>
   HathorWallet_sendTokensToHathor (scripted [ready]) config1 [] ''WdQ9'' ''100'' ''0xabc'' ''0xdef'' =
     ([GetStatus ''multi'', GetStatus ''single'', ReadFile ''./db/tokenMapping.json'',
       PostMintTokens ''multi'' ''WdQ9'' ''100'' ''[object Promise]''],
      Inl (Error ''Failed to send transaction proposal: Network Error''))"
proof -
  have w: "walletId config1 True = ''multi''" "walletId config1 False = ''single''"
    by (simp_all add: walletId_def config1_def)
  have r: "reports (scripted [ready]) (tr @ [GetStatus w]) WALLET_STATUS_READY" for tr w
    by (simp add: reports_def scripted_def status_reply_def ready_def WALLET_STATUS_READY_def)
  have 1: "isWalletReady (scripted [ready]) config1 [] True 1 = ([GetStatus ''multi''], Inr (Some True))"
    using isWalletReady_ready [of 1 "scripted [ready]" "[]" config1 True] r [of "[]"] by (simp add: w)
  have 2: "isWalletReady (scripted [ready]) config1 [GetStatus ''multi''] False 1 =
      ([GetStatus ''multi'', GetStatus ''single''], Inr (Some True))"
    using isWalletReady_ready [of 1 "scripted [ready]" "[GetStatus ''multi'']" config1 False]
      r [of "[GetStatus ''multi'']"] by (simp add: w)
  have c: "multisigOrder config1 = 1" "multisigWalletId config1 = ''multi''"
    by (simp_all add: config1_def)
  have m: "postMintTokens (scripted [ready]) tr = Inl ''Network Error''" for tr
    by (simp add: scripted_def)
  have b: "sendTokensToHathor no_brokers r q t h = Inl (Error ''unreachable'')" for r q t h
    by (simp add: no_brokers_def)
  show ?thesis
    by (simp add: HathorService_sendTokensToHathor_def HathorWallet_sendTokensToHathor_def 1 2
        HathorWallet_sendTransactionProposal_def getHathorTokenAddress_def c m b)
qed

section \<open>Non-retriable errors\<close>

lemma match_here_iff:
  "match_here p s \<longleftrightarrow> (\<exists>mid post. s = mid @ post \<and> list_all2 rx_char p mid)"
proof (induction p s rule: match_here.induct)
  case (1 s)
  show ?case by simp
next
  case (2 r rs)
  show ?case by (simp add: list_all2_Cons1)
next
  case (3 r rs c cs)
  show ?case
  proof
    assume "match_here (r # rs) (c # cs)"
    then obtain mid post where "rx_char r c" "cs = mid @ post" "list_all2 rx_char rs mid"
      using 3 by auto
    then have "c # cs = (c # mid) @ post \<and> list_all2 rx_char (r # rs) (c # mid)" by simp
    then show "\<exists>mid post. c # cs = mid @ post \<and> list_all2 rx_char (r # rs) mid" by blast
  next
    assume "\<exists>mid post. c # cs = mid @ post \<and> list_all2 rx_char (r # rs) mid"
    then obtain mid post where m: "c # cs = mid @ post" "list_all2 rx_char (r # rs) mid" by blast
    then obtain m ms where "mid = m # ms" "rx_char r m" "list_all2 rx_char rs ms"
      by (auto simp: list_all2_Cons1)
    with m 3 show "match_here (r # rs) (c # cs)" by auto
  qed
qed

lemma js_match_iff: "js_match p s \<longleftrightarrow> matches_at_some_position p s"
proof (induction s)
  case Nil
  show ?case by (auto simp: matches_at_some_position_def match_here_iff)
next
  case (Cons c cs)
  show ?case
  proof
    assume "js_match p (c # cs)"
    then consider "match_here p (c # cs)" | "matches_at_some_position p cs"
      using Cons by auto
    then show "matches_at_some_position p (c # cs)"
    proof cases
      case 1
      then obtain mid post where "c # cs = [] @ mid @ post" "list_all2 rx_char p mid"
        by (auto simp: match_here_iff)
      then show ?thesis unfolding matches_at_some_position_def by blast
    next
      case 2
      then obtain pre mid post where "c # cs = (c # pre) @ mid @ post" "list_all2 rx_char p mid"
        by (auto simp: matches_at_some_position_def)
      then show ?thesis unfolding matches_at_some_position_def by blast
    qed
  next
    assume "matches_at_some_position p (c # cs)"
    then obtain pre mid post where m: "c # cs = pre @ mid @ post" "list_all2 rx_char p mid"
      by (auto simp: matches_at_some_position_def)
    show "js_match p (c # cs)"
    proof (cases pre)
      case Nil
      with m have "match_here p (c # cs)" by (auto simp: match_here_iff)
      then show ?thesis by simp
    next
      case (Cons a pre')
      with m have "cs = pre' @ mid @ post" by simp
      with m have "matches_at_some_position p cs" unfolding matches_at_some_position_def by blast
      with Cons.IH show ?thesis by simp
    qed
  qed
qed

lemma isNonRetriable_loop_iff:
  "isNonRetriable_loop ps s \<longleftrightarrow> (\<exists>p \<in> set ps. matches_at_some_position p s)"
  by (induction ps) (auto simp: js_match_iff)

text \<open>An expression without a dot matches where its text occurs.\<close>

lemma literal_regex:
  "CHR ''.'' \<notin> set lit \<Longrightarrow> matches_at_some_position (regex lit) s \<longleftrightarrow> (\<exists>pre post. s = pre @ lit @ post)"
proof -
  assume d: "CHR ''.'' \<notin> set lit"
  have "list_all2 rx_char (regex lit) mid \<longleftrightarrow> mid = lit" for mid
    using d by (induction lit arbitrary: mid) (auto simp: regex_def list_all2_Cons1)
  then show ?thesis by (auto simp: matches_at_some_position_def)
qed

text \<open>
  C7. When processing a message raises an error (\<open>JSON.parse\<close> or \<open>parseHathorLogs\<close>
  throws), the message is acknowledged if the error is a \<open>HathorException\<close> whose original
  message matches one of the non-retriable expressions at some position, and is nacked for
  every other error, a \<open>HathorException\<close> or not.
\<close>

theorem error_classification:
  assumes "parsed = Inl err \<or> (\<exists>ev. parsed = Inr ev \<and> snd (parseHathorLogs b cfg ev) = Inl err)"
  shows "snd (on_message b cfg parsed) =
     (case err of
        HathorException full originalError \<Rightarrow>
          if \<exists>p \<in> set nonRetriableErrors. matches_at_some_position p originalError then Ack else Nack
      | Error m \<Rightarrow> Nack)"
proof -
  have "snd (on_message b cfg parsed) = on_error err"
    using assms by (auto simp: on_message_def split: prod.splits sum.splits)
  then show ?thesis
    by (simp add: on_error_def isNonRetriable_loop_iff split: js_error.splits)
qed

theorem error_classification_witness:
  "snd (on_message (brokers_ok True []) config1 (Inl (Error ''SyntaxError: Unexpected end of JSON input'')))
     = Nack \<and>
   snd (on_message (brokers_failing (HathorException ''500 - {}'' ''Transaction already exists''))
          config1 (Inr (new_tx [''hex''] (Some ''hid'')))) = Ack \<and>
   snd (on_message (brokers_failing (HathorException ''500 - {}'' ''Request timed out''))
          config1 (Inr (new_tx [''hex''] (Some ''hid'')))) = Nack \<and>
   snd (on_message (brokers_failing (Error ''Transaction already exists''))
          config1 (Inr (new_tx [''hex''] (Some ''hid'')))) = Nack"
proof -
  have p: "snd (parseHathorLogs (brokers_failing e) config1 (new_tx [''hex''] (Some ''hid''))) = Inl e" for e
    by (simp add: parseHathorLogs_def new_tx_def tagged_tx_def getBrokerAndDataType_def
        brokers_failing_def Let_def)
  have q: "\<exists>ev. Inr (new_tx [''hex''] (Some ''hid'')) = Inr ev \<and>
      snd (parseHathorLogs (brokers_failing e) config1 ev) = Inl e" for e
    using p by blast
  have m: "(\<exists>p \<in> set nonRetriableErrors. matches_at_some_position p ''Transaction already exists'')"
    unfolding isNonRetriable_loop_iff [symmetric]
    by (simp add: nonRetriableErrors_def regex_def)
  have n: "\<not> (\<exists>p \<in> set nonRetriableErrors. matches_at_some_position p ''Request timed out'')"
    unfolding isNonRetriable_loop_iff [symmetric]
    by (simp add: nonRetriableErrors_def regex_def)
  show ?thesis
    using error_classification [of "Inl (Error ''SyntaxError: Unexpected end of JSON input'')"
        "Error ''SyntaxError: Unexpected end of JSON input''" "brokers_ok True []" config1]
      error_classification [OF disjI2, OF q, of "HathorException ''500 - {}'' ''Transaction already exists''"]
      error_classification [OF disjI2, OF q, of "HathorException ''500 - {}'' ''Request timed out''"]
      error_classification [OF disjI2, OF q, of "Error ''Transaction already exists''"]
      m n
    by simp
qed

section \<open>Classification of events\<close>

lemma parse_hex_only:
  "event_type ev = ''wallet:new-tx'' \<Longrightarrow> haveCustomData (event_tx ev) ''hex'' \<Longrightarrow>
   parseHathorLogs b cfg ev = parseHathorLogs b cfg (only_tag ''hex'' ev)"
  by (simp add: parseHathorLogs_def only_tag_def getBrokerAndDataType_def Let_def
      cong: sum.case_cong option.case_cong list.case_cong if_cong)

lemma parse_sig_only:
  "event_type ev = ''wallet:new-tx'' \<Longrightarrow> \<not> haveCustomData (event_tx ev) ''hex'' \<Longrightarrow>
   haveCustomData (event_tx ev) ''sig'' \<Longrightarrow> multisigOrder cfg \<ge> multisigRequiredSignatures cfg \<Longrightarrow>
   parseHathorLogs b cfg ev = parseHathorLogs b cfg (only_tag ''sig'' ev)"
  by (simp add: parseHathorLogs_def only_tag_def getBrokerAndDataType_def Let_def
      cong: sum.case_cong option.case_cong list.case_cong if_cong)

lemma parse_addr_only:
  assumes "event_type ev = ''wallet:new-tx''" and "\<not> haveCustomData (event_tx ev) ''hex''"
    and "\<not> (haveCustomData (event_tx ev) ''sig'' \<and> multisigOrder cfg \<ge> multisigRequiredSignatures cfg)"
    and "haveCustomData (event_tx ev) ''addr''"
  shows "parseHathorLogs b cfg ev = parseHathorLogs b cfg (only_tag ''addr'' ev)"
proof -
  have c: "(haveCustomData (event_tx ev) ''sig'' \<and>
            multisigRequiredSignatures cfg \<le> multisigOrder cfg) = False"
    using assms(3) by simp
  show ?thesis
    using assms(1,2,4)
    by (simp add: parseHathorLogs_def only_tag_def Let_def c
        cong: sum.case_cong option.case_cong list.case_cong if_cong)
qed

lemma parse_hex_calls:
  "event_type ev = ''wallet:new-tx'' \<Longrightarrow> haveCustomData (event_tx ev) ''hex'' \<Longrightarrow>
   list_all proposal_call (fst (parseHathorLogs b cfg ev))"
  by (simp add: parseHathorLogs_def Let_def split: option.split sum.split prod.split)

lemma parse_sig_calls:
  "event_type ev = ''wallet:new-tx'' \<Longrightarrow> \<not> haveCustomData (event_tx ev) ''hex'' \<Longrightarrow>
   haveCustomData (event_tx ev) ''sig'' \<Longrightarrow> multisigOrder cfg \<ge> multisigRequiredSignatures cfg \<Longrightarrow>
   list_all signature_call (fst (parseHathorLogs b cfg ev))"
  by (simp add: parseHathorLogs_def Let_def split: option.split sum.split prod.split)

lemma parse_addr_calls:
  assumes "event_type ev = ''wallet:new-tx''" and "\<not> haveCustomData (event_tx ev) ''hex''"
    and "\<not> (haveCustomData (event_tx ev) ''sig'' \<and> multisigOrder cfg \<ge> multisigRequiredSignatures cfg)"
    and "haveCustomData (event_tx ev) ''addr''"
  shows "list_all transfer_call (fst (parseHathorLogs b cfg ev))"
proof -
  have c: "(haveCustomData (event_tx ev) ''sig'' \<and>
            multisigRequiredSignatures cfg \<le> multisigOrder cfg) = False"
    using assms(3) by simp
  show ?thesis
    using assms(1,2,4)
    by (simp add: parseHathorLogs_def Let_def c split: sum.split list.split)
qed

text \<open>
  C4 (amended). The branch of a new-tx event is decided in the order hex (proposal), then
  sig (signature, only for a federator whose \<open>multisigOrder\<close> is at least
  \<open>multisigRequiredSignatures\<close>), then addr (inbound transfer): the result is that of the
  same event carrying the deciding tag alone, and only the calls of that branch are made.
  Other tags on the transaction change nothing.
\<close>

theorem classification_priority:
  assumes "event_type ev = ''wallet:new-tx''"
  shows
  "(haveCustomData (event_tx ev) ''hex'' \<longrightarrow>
      parseHathorLogs b cfg ev = parseHathorLogs b cfg (only_tag ''hex'' ev) \<and>
      list_all proposal_call (fst (parseHathorLogs b cfg ev))) \<and>
   (\<not> haveCustomData (event_tx ev) ''hex'' \<and> haveCustomData (event_tx ev) ''sig'' \<and>
    multisigOrder cfg \<ge> multisigRequiredSignatures cfg \<longrightarrow>
      parseHathorLogs b cfg ev = parseHathorLogs b cfg (only_tag ''sig'' ev) \<and>
      list_all signature_call (fst (parseHathorLogs b cfg ev))) \<and>
   (\<not> haveCustomData (event_tx ev) ''hex'' \<and>
    \<not> (haveCustomData (event_tx ev) ''sig'' \<and> multisigOrder cfg \<ge> multisigRequiredSignatures cfg) \<and>
    haveCustomData (event_tx ev) ''addr'' \<longrightarrow>
      parseHathorLogs b cfg ev = parseHathorLogs b cfg (only_tag ''addr'' ev) \<and>
      list_all transfer_call (fst (parseHathorLogs b cfg ev)))"
  using assms parse_hex_only [of ev b cfg] parse_sig_only [of ev cfg b] parse_addr_only [of ev cfg b]
    parse_hex_calls [of ev b cfg] parse_sig_calls [of ev cfg b] parse_addr_calls [of ev cfg b]
  by blast

theorem classification_priority_witness:
  "event_type (new_tx [''addr'', ''hex'', ''sig''] (Some ''hid'')) = ''wallet:new-tx'' \<and>
   haveCustomData (event_tx (new_tx [''addr'', ''hex'', ''sig''] (Some ''hid''))) ''hex'' \<and>
   parseHathorLogs (brokers_ok True [''s1'', ''s2'']) config2 (new_tx [''addr'', ''hex'', ''sig''] (Some ''hid'')) =
     parseHathorLogs (brokers_ok True [''s1'', ''s2'']) config2
       (only_tag ''hex'' (new_tx [''addr'', ''hex'', ''sig''] (Some ''hid''))) \<and>
   list_all proposal_call
     (fst (parseHathorLogs (brokers_ok True [''s1'', ''s2'']) config2
        (new_tx [''addr'', ''hex'', ''sig''] (Some ''hid'')))) \<and>
   list_all signature_call
     (fst (parseHathorLogs (brokers_ok True [''s1'', ''s2'']) config2
        (new_tx [''addr'', ''sig''] (Some ''hid'')))) \<and>
   list_all transfer_call
     (fst (parseHathorLogs (brokers_ok True [''s1'', ''s2'']) config1
        (new_tx [''addr'', ''sig''] (Some ''hid''))))"
proof -
  have t: "event_type (new_tx tags d) = ''wallet:new-tx''" for tags d
    by (simp add: new_tx_def)
  have h: "haveCustomData (event_tx (new_tx tags d)) tag = (tag \<in> set tags)" for tags d tag
    by (simp add: new_tx_def tagged_tx_def)
  have c: "multisigOrder config2 \<ge> multisigRequiredSignatures config2"
    "\<not> multisigOrder config1 \<ge> multisigRequiredSignatures config1"
    by (simp_all add: config1_def config2_def)
  have h1: "haveCustomData (event_tx (new_tx [''addr'', ''hex'', ''sig''] (Some ''hid''))) ''hex''"
    by (simp add: h)
  have h2: "\<not> haveCustomData (event_tx (new_tx [''addr'', ''sig''] (Some ''hid''))) ''hex''"
    "haveCustomData (event_tx (new_tx [''addr'', ''sig''] (Some ''hid''))) ''sig''"
    "haveCustomData (event_tx (new_tx [''addr'', ''sig''] (Some ''hid''))) ''addr''"
    by (simp_all add: h)
  show ?thesis
    using classification_priority [OF t, of "[''addr'', ''hex'', ''sig'']" "Some ''hid''"
        "brokers_ok True [''s1'', ''s2'']" config2]
      classification_priority [OF t, of "[''addr'', ''sig'']" "Some ''hid''"
        "brokers_ok True [''s1'', ''s2'']" config2]
      classification_priority [OF t, of "[''addr'', ''sig'']" "Some ''hid''"
        "brokers_ok True [''s1'', ''s2'']" config1]
      c t h1 h2
    by blast
qed

text \<open>
  C4 as stated fails: addr does not come first. A transaction with addr alone is sent on as
  an inbound transfer; with addr and hex it is handled as a proposal; with addr and sig, at
  a federator at the threshold position, as a signature.
\<close>

theorem classification_counterexample:
  "parseHathorLogs (brokers_ok True []) config1 (new_tx [''addr''] (Some ''hid'')) =
     ([IsTxConfirmed HathorBroker ''00aa'',
       SendTokensFromHathor ''addr-data'' 5 ''00'' ''00aa'' ''WdQ9'' 1700000000], Inr (Some True)) \<and>
   parseHathorLogs (brokers_ok True []) config1 (new_tx [''addr'', ''hex''] (Some ''hid'')) =
     ([IsTxConfirmed HathorBroker ''00aa'',
       SendMySignaturesToProposal HathorBroker ''hex-data'' ''hid-data''], Inr (Some True)) \<and>
   parseHathorLogs (brokers_ok True [''s1'', ''s2'']) config2 (new_tx [''addr'', ''sig''] (Some ''hid'')) =
     ([IsTxConfirmed HathorBroker ''00aa'', GetSignaturesToPush HathorBroker ''hid-data'',
       SignAndPushProposal HathorBroker ''0001'' ''hid-data'' [''s1'', ''s2'']], Inr (Some True))"
  by (simp add: new_tx_def tagged_tx_def brokers_ok_def config1_def config2_def
      parseHathorLogs_def getBrokerAndDataType_def Let_def)

section \<open>Messages that are not acted on\<close>

text \<open>
  C9, on the code. An event whose type is not \<open>wallet:new-tx\<close> is acknowledged without a
  broker call. A new-tx event whose transaction carries none of addr, hex, sig makes no
  broker call either, but \<open>parseHathorLogs\<close> falls off its end and returns \<open>undefined\<close>,
  so the message is nacked, not acknowledged.
\<close>

theorem non_bridge_message:
  "(event_type ev \<noteq> ''wallet:new-tx'' \<longrightarrow> on_message b cfg (Inr ev) = ([], Ack)) \<and>
   (event_type ev' = ''wallet:new-tx'' \<and> \<not> haveCustomData (event_tx ev') ''addr'' \<and>
    \<not> haveCustomData (event_tx ev') ''hex'' \<and> \<not> haveCustomData (event_tx ev') ''sig'' \<longrightarrow>
      parseHathorLogs b cfg ev' = ([], Inr None) \<and> on_message b cfg (Inr ev') = ([], Nack))"
  by (simp add: on_message_def parseHathorLogs_def Let_def)

theorem non_bridge_message_witness:
  "event_type \<lparr>event_type = ''wallet:load-partial-update'', event_tx = tagged_tx [] None\<rparr>
     \<noteq> ''wallet:new-tx'' \<and>
   on_message (brokers_ok True []) config1
     (Inr \<lparr>event_type = ''wallet:load-partial-update'', event_tx = tagged_tx [] None\<rparr>) = ([], Ack) \<and>
   event_type (new_tx [] None) = ''wallet:new-tx'' \<and>
   parseHathorLogs (brokers_ok True []) config1 (new_tx [] None) = ([], Inr None) \<and>
   on_message (brokers_ok True []) config1 (Inr (new_tx [] None)) = ([], Nack)"
  using non_bridge_message [of "\<lparr>event_type = ''wallet:load-partial-update'', event_tx = tagged_tx [] None\<rparr>"
      "brokers_ok True []" config1 "new_tx [] None"]
  by (simp add: new_tx_def tagged_tx_def)

text \<open>
  C6, on the code. A new-tx event with the sig tag alone, at a federator whose
  \<open>multisigOrder\<close> is below \<open>multisigRequiredSignatures\<close>, makes no broker call;
  \<open>parseHathorLogs\<close> returns \<open>undefined\<close> and the message is nacked, not acknowledged.
\<close>

theorem early_signature_event:
  assumes "event_type ev = ''wallet:new-tx''"
    and "haveCustomData (event_tx ev) ''sig''"
    and "\<not> haveCustomData (event_tx ev) ''hex''" and "\<not> haveCustomData (event_tx ev) ''addr''"
    and "multisigOrder cfg < multisigRequiredSignatures cfg"
  shows "parseHathorLogs b cfg ev = ([], Inr None) \<and> on_message b cfg (Inr ev) = ([], Nack)"
  using assms by (simp add: on_message_def parseHathorLogs_def Let_def)

theorem early_signature_event_witness:
  "multisigOrder config1 < multisigRequiredSignatures config1 \<and>
   haveCustomData (event_tx (new_tx [''sig''] (Some ''hsh''))) ''sig'' \<and>
   parseHathorLogs (brokers_ok True [''s1'']) config1 (new_tx [''sig''] (Some ''hsh'')) = ([], Inr None) \<and>
   on_message (brokers_ok True [''s1'']) config1 (Inr (new_tx [''sig''] (Some ''hsh''))) = ([], Nack)"
proof -
  have t: "event_type (new_tx [''sig''] (Some ''hsh'')) = ''wallet:new-tx''"
    by (simp add: new_tx_def)
  have h: "haveCustomData (event_tx (new_tx [''sig''] (Some ''hsh''))) ''sig''"
    "\<not> haveCustomData (event_tx (new_tx [''sig''] (Some ''hsh''))) ''hex''"
    "\<not> haveCustomData (event_tx (new_tx [''sig''] (Some ''hsh''))) ''addr''"
    by (simp_all add: new_tx_def tagged_tx_def)
  have c: "multisigOrder config1 < multisigRequiredSignatures config1"
    by (simp add: config1_def)
  show ?thesis
    using early_signature_event [OF t h c, of "brokers_ok True [''s1'']"] h c by simp
qed

section \<open>Signatures at the threshold position\<close>




section \<open>The payload codec\<close>

lemma Math_ceil_div_eq: "Math_ceil_div n dataLimit = (n + 144) div 145"
proof -
  have "\<lceil>real n / real dataLimit\<rceil> = - (- int n div 145)"
    using ceiling_divide_eq_div [of "int n" 145, where ?'a = real] by (simp add: dataLimit_def)
  also have "\<dots> = (int n + 144) div 145" by linarith
  finally have "Math_ceil_div n dataLimit = nat ((int n + 144) div 145)"
    by (simp add: Math_ceil_div_def)
  also have "\<dots> = (n + 144) div 145"
    by (simp add: nat_div_distrib nat_add_distrib)
  finally show ?thesis .
qed

lemma substring_chunk: "substring s (i * n) (i * n + n) = take n (drop (i * n) s)"
  by (auto simp: substring_def Let_def min_def max_def)

lemma wrapData_loop_eq:
  "wrapData_loop dataType dat arraySize i outputs =
     outputs @ map (wrapped dataType dat arraySize) [i..<arraySize]"
proof (induction dataType dat arraySize i outputs rule: wrapData_loop.induct)
  case (1 dataType dat arraySize i outputs)
  show ?case
  proof (cases "i < arraySize")
    case True
    then have "wrapData_loop dataType dat arraySize i outputs =
        wrapData_loop dataType dat arraySize (i + 1)
          (outputs @ [wrapped dataType dat arraySize i])"
      by (subst wrapData_loop.simps)
        (simp add: Let_def wrapped_def substring_chunk dataLimit_def)
    also have "\<dots> = (outputs @ [wrapped dataType dat arraySize i]) @
        map (wrapped dataType dat arraySize) [i + 1..<arraySize]"
      using "1.IH" [OF True refl refl refl] by (simp add: substring_chunk dataLimit_def wrapped_def)
    finally show ?thesis using True by (simp add: upt_conv_Cons)
  next
    case False
    then show ?thesis by (subst wrapData_loop.simps) simp
  qed
qed

lemma wrapData_chunks_eq:
  "wrapData_chunks dataType dat =
     map (wrapped dataType dat ((length dat + 144) div 145)) [0..<(length dat + 144) div 145]"
  by (simp add: wrapData_chunks_def Let_def Math_ceil_div_eq wrapData_loop_eq)

lemma concat_chunks: "concat (map (\<lambda>i. take n (drop (i * n) xs)) [0..<k]) = take (k * n) xs"
proof (induction k)
  case 0
  show ?case by simp
next
  case (Suc k)
  have "take (Suc k * n) xs = take (k * n) xs @ take n (drop (k * n) xs)"
    using take_add [of "k * n" n xs] by (simp add: add.commute)
  with Suc show ?case by simp
qed



lemma show_nat_digit: "n < 10 \<Longrightarrow> show_nat n = [digit_char n]"
  by (subst show_nat.simps) simp

lemma show_nat_10: "show_nat 10 = [digit_char 1, digit_char 0]"
  by (subst show_nat.simps) (simp add: show_nat_digit)

lemma digit_val_digit_char: "n < 10 \<Longrightarrow> digit_val (digit_char n) = Some n"
  by (simp add: digit_val_def digit_char_def)

lemma data_payloads_map:
  "data_payloads (map (\<lambda>i. DataOutput (p i)) xs @ [AddressOutput a v]) = map p xs"
  by (induction xs) simp_all

lemma parse_all_map:
  "list_all (\<lambda>i. parse_chunk n (p i) = Some (c i)) xs \<Longrightarrow> parse_all n (map p xs) = Some (map c xs)"
  by (induction xs) simp_all

lemma chunkIndex_chunk_of: "map chunkIndex (map (chunk_of t b) xs) = xs"
  by (induction xs) (simp_all add: chunk_of_def)

lemma index_missing_chunks: "t \<le> k \<Longrightarrow> \<not> index_missing (map (chunk_of t b) [0..<k])"
  by (auto simp: index_missing_def list_ex_iff chunkIndex_chunk_of chunk_of_def simp del: map_map)

lemma totals_conflict_chunks: "\<not> totals_conflict (map (chunk_of t b) xs)"
  by (auto simp: totals_conflict_def list_ex_iff chunk_of_def)

lemma sort_chunks: "sort_key chunkIndex (map (chunk_of t b) [0..<k]) = map (chunk_of t b) [0..<k]"
  by (rule sort_key_id_if_sorted) (simp add: chunkIndex_chunk_of del: map_map)

lemma bodies_chunks: "map (chunkBody \<circ> chunk_of t b) xs = map b xs"
  by (simp add: chunk_of_def comp_def)

text \<open>Decoding outputs whose payloads all carry the tag and parse to chunks \<open>0..k-1\<close> of one total.\<close>

lemma decode_chunks:
  assumes "0 < k" and "t \<le> k"
    and "list_all (\<lambda>i. prefix tag (p i)) [0..<k]"
    and "list_all (\<lambda>i. parse_chunk (length tag) (p i) = Some (chunk_of t b i)) [0..<k]"
  shows "decode (map (\<lambda>i. DataOutput (p i)) [0..<k] @ [AddressOutput a v]) tag =
     Inr (Some (concat (map b [0..<k])))"
proof -
  have ne: "map p [0..<k] \<noteq> []" using assms(1) by simp
  have f: "filter (prefix tag) (map p [0..<k]) = map p [0..<k]"
    using assms(3) by (simp add: filter_id_conv list_all_iff del: upt_eq_Nil_conv)
  show ?thesis
    unfolding decode_def data_payloads_map f Let_def
    using ne
    by (simp add: parse_all_map [OF assms(4)] index_missing_chunks [OF assms(2)]
        totals_conflict_chunks sort_chunks bodies_chunks del: upt_eq_Nil_conv)
qed

lemma parse_chunk_wrapped:
  "i < 10 \<Longrightarrow> k < 10 \<Longrightarrow>
   parse_chunk (length dataType) (dataType @ show_nat i @ show_nat k @ body) =
     Some \<lparr>chunkIndex = i, totalChunks = k, chunkBody = body\<rparr>"
  by (simp add: parse_chunk_def show_nat_digit digit_val_digit_char)

lemma parse_chunk_wrapped_10:
  "i < 10 \<Longrightarrow>
   parse_chunk (length dataType) (dataType @ show_nat i @ show_nat 10 @ body) =
     Some \<lparr>chunkIndex = i, totalChunks = 1, chunkBody = digit_char 0 # body\<rparr>"
  by (simp add: parse_chunk_def show_nat_digit show_nat_10 digit_val_digit_char)

lemma decode_wrapped:
  assumes "0 < k" and "k < 10"
  shows "decode (map (wrapped dataType dat k) [0..<k] @ [AddressOutput a v]) dataType =
     Inr (Some (take (k * 145) dat))"
proof -
  let ?p = "\<lambda>i. dataType @ show_nat i @ show_nat k @ take 145 (drop (i * 145) dat)"
  have "decode (map (\<lambda>i. DataOutput (?p i)) [0..<k] @ [AddressOutput a v]) dataType =
      Inr (Some (concat (map (\<lambda>i. take 145 (drop (i * 145) dat)) [0..<k])))"
    using assms
    by (intro decode_chunks [where t = k])
      (simp_all add: list_all_iff parse_chunk_wrapped chunk_of_def)
  then show ?thesis
    by (simp add: concat_chunks wrapped_def [abs_def])
qed

lemma decode_wrapped_10:
  "decode (map (wrapped dataType dat 10) [0..<10] @ [AddressOutput a v]) dataType =
     Inr (Some (concat (map (\<lambda>i. digit_char 0 # take 145 (drop (i * 145) dat)) [0..<10])))"
proof -
  let ?p = "\<lambda>i. dataType @ show_nat i @ show_nat 10 @ take 145 (drop (i * 145) dat)"
  have "decode (map (\<lambda>i. DataOutput (?p i)) [0..<10] @ [AddressOutput a v]) dataType =
      Inr (Some (concat (map (\<lambda>i. digit_char 0 # take 145 (drop (i * 145) dat)) [0..<10])))"
    by (intro decode_chunks [where t = 1])
      (simp_all add: list_all_iff parse_chunk_wrapped_10 chunk_of_def)
  then show ?thesis
    by (simp add: wrapped_def [abs_def])
qed

lemma length_concat_cons:
  "length (concat (map (\<lambda>i. c # f i) xs)) = length xs + length (concat (map f xs))"
  by (induction xs) simp_all

lemma decode_wrapped_10_neq:
  assumes "length dat \<le> 1450"
  shows "decode (map (wrapped dataType dat 10) [0..<10] @ [AddressOutput a v]) dataType \<noteq> Inr (Some dat)"
proof
  assume "decode (map (wrapped dataType dat 10) [0..<10] @ [AddressOutput a v]) dataType = Inr (Some dat)"
  then have "concat (map (\<lambda>i. digit_char 0 # take 145 (drop (i * 145) dat)) [0..<10]) = dat"
    by (simp add: decode_wrapped_10)
  then have "length (concat (map (\<lambda>i. digit_char 0 # take 145 (drop (i * 145) dat)) [0..<10])) = length dat"
    by simp
  then have "10 + length (take (10 * 145) dat) = length dat"
    unfolding length_concat_cons concat_chunks by simp
  then show False using assms by simp
qed


lemma wrapData_outputs:
  "wrapData svc cfg tr dataType dat txId = (tr', Inr outputs) \<Longrightarrow>
   \<exists>a. outputs = wrapData_chunks dataType dat @ [AddressOutput a 1]"
  by (auto simp: wrapData_def Let_def split: prod.splits sum.splits)

text \<open>
  C2 (amended). When \<open>wrapData\<close> returns, its outputs are the \<open>ceil(length / 145)\<close>
  chunks of the payload, each of at most 145 characters and wrapped as
  \<open>{typeTag}{chunkIndex}{totalChunks}{chunkBody}\<close> with the indices \<open>0..totalChunks-1\<close> in
  order, followed by the output for the multisig address; the chunk bodies concatenate to
  the payload. Decoding the outputs with the same tag returns the payload when it has 1 to
  1305 characters (one to nine chunks), and returns absent for the empty payload.
\<close>

theorem wrapData_roundtrip:
  assumes "wrapData svc cfg tr dataType dat txId = (tr', Inr outputs)"
    and "k = Math_ceil_div (length dat) dataLimit"
  shows "(\<exists>a. outputs = map (wrapped dataType dat k) [0..<k] @ [AddressOutput a 1]) \<and>
    k = (length dat + 144) div 145 \<and>
    concat (map (\<lambda>i. take 145 (drop (i * 145) dat)) [0..<k]) = dat \<and>
    (0 < length dat \<and> length dat \<le> 1305 \<longrightarrow> decode outputs dataType = Inr (Some dat)) \<and>
    (dat = [] \<longrightarrow> decode outputs dataType = Inr None)"
proof -
  have k: "k = (length dat + 144) div 145"
    using assms(2) by (simp add: Math_ceil_div_eq)
  obtain a where o: "outputs = map (wrapped dataType dat k) [0..<k] @ [AddressOutput a 1]"
    using wrapData_outputs [OF assms(1)] by (auto simp: wrapData_chunks_eq k)
  have l: "length dat \<le> k * 145" using k by simp
  have c: "concat (map (\<lambda>i. take 145 (drop (i * 145) dat)) [0..<k]) = dat"
    using l by (simp add: concat_chunks)
  have d: "decode outputs dataType = Inr (Some dat)" if "0 < length dat" "length dat \<le> 1305"
  proof -
    have "0 < k" using that(1) unfolding k by (cases dat) (simp_all add: div_greater_zero_iff)
    moreover have "k < 10" using that(2) unfolding k by (intro less_mult_imp_div_less) simp
    ultimately show ?thesis using decode_wrapped [of k dataType dat a 1] l o by simp
  qed
  have e: "decode outputs dataType = Inr None" if "dat = []"
    using that o k by (simp add: decode_def)
  from o k c d e show ?thesis by blast
qed


text \<open>
  C2 as stated fails at length 0 and from ten chunks on: the empty payload has no data
  output and decodes to absent, not to the empty string; a payload of 1306 characters has
  ten chunks, whose total \<open>10\<close> is read as the digit \<open>1\<close> followed by a body that starts
  with \<open>0\<close>, and does not decode to itself.
\<close>

theorem wrapData_roundtrip_counterexample:
  "wrapData wallet_up config1 [] ''hex'' [] [] = ([GetAddress ''multi''], Inr [AddressOutput ''WmultiSig'' 1]) \<and>
   decode [AddressOutput ''WmultiSig'' 1] ''hex'' = Inr None \<and>
   decode (projr (snd (wrapData wallet_up config1 [] ''hex'' (replicate 1306 (CHR ''a'')) []))) ''hex''
     \<noteq> Inr (Some (replicate 1306 (CHR ''a'')))"
proof -
  define dat where "dat = replicate 1306 (CHR ''a'')"
  have len: "length dat = 1306" by (simp add: dat_def)
  have g: "getMultiSigAddress wallet_up config1 [] = ([GetAddress ''multi''], Inr ''WmultiSig'')"
    by (simp add: getMultiSigAddress_def wallet_up_def config1_def)
  have 1: "wrapData wallet_up config1 [] ''hex'' [] [] =
      ([GetAddress ''multi''], Inr [AddressOutput ''WmultiSig'' 1])"
    by (simp add: wrapData_def g wrapData_chunks_eq)
  have 2: "decode [AddressOutput ''WmultiSig'' 1] ''hex'' = Inr None"
    by (simp add: decode_def)
  have k: "(length dat + 144) div 145 = 10" by (simp add: len)
  have "projr (snd (wrapData wallet_up config1 [] ''hex'' dat [])) =
      map (wrapped ''hex'' dat 10) [0..<10] @ [AddressOutput ''WmultiSig'' 1]"
    unfolding wrapData_def g wrapData_chunks_eq k by (simp only: Let_def prod.case sum.case snd_conv sum.sel)
  then have "decode (projr (snd (wrapData wallet_up config1 [] ''hex'' dat []))) ''hex'' \<noteq> Inr (Some dat)"
    using decode_wrapped_10_neq [of dat "''hex''" "''WmultiSig''" 1] len
    by simp
  then have 3: "decode (projr (snd (wrapData wallet_up config1 [] ''hex'' (replicate 1306 (CHR ''a'')) []))) ''hex''
     \<noteq> Inr (Some (replicate 1306 (CHR ''a'')))"
    unfolding dat_def .
  show ?thesis
    by (intro conjI) (rule 1, rule 2, rule 3)
qed



theorem wrapData_roundtrip_witness:
  "wrapData wallet_up config1 [] ''sig'' ''abc'' [] =
     ([GetAddress ''multi''], Inr [DataOutput ''sig01abc'', AddressOutput ''WmultiSig'' 1]) \<and>
   decode [DataOutput ''sig01abc'', AddressOutput ''WmultiSig'' 1] ''sig'' = Inr (Some ''abc'') \<and>
   decode (wrapData_chunks ''hex'' (replicate 1 (CHR ''a'')) @ [AddressOutput ''WmultiSig'' 1]) ''hex'' =
     Inr (Some (replicate 1 (CHR ''a''))) \<and>
   decode (wrapData_chunks ''hex'' (replicate 145 (CHR ''a'')) @ [AddressOutput ''WmultiSig'' 1]) ''hex'' =
     Inr (Some (replicate 145 (CHR ''a''))) \<and>
   decode (wrapData_chunks ''hex'' (replicate 146 (CHR ''a'')) @ [AddressOutput ''WmultiSig'' 1]) ''hex'' =
     Inr (Some (replicate 146 (CHR ''a''))) \<and>
   decode (wrapData_chunks ''hex'' (replicate 1305 (CHR ''a'')) @ [AddressOutput ''WmultiSig'' 1]) ''hex'' =
     Inr (Some (replicate 1305 (CHR ''a''))) \<and>
   decode (wrapData_chunks ''hex'' [] @ [AddressOutput ''WmultiSig'' 1]) ''hex'' = Inr None"
proof -
  have g: "getMultiSigAddress wallet_up config1 [] = ([GetAddress ''multi''], Inr ''WmultiSig'')"
    by (simp add: getMultiSigAddress_def wallet_up_def config1_def)
  have w: "wrapData wallet_up config1 [] dataType dat [] =
      ([GetAddress ''multi''], Inr (wrapData_chunks dataType dat @ [AddressOutput ''WmultiSig'' 1]))"
    for dataType dat
    by (simp add: wrapData_def g)
  have dg: "digit_char 0 = CHR ''0''" "digit_char (Suc 0) = CHR ''1''"
    by code_simp+
  have c: "wrapData_chunks ''sig'' ''abc'' = [DataOutput ''sig01abc'']"
    by (simp add: wrapData_chunks_eq wrapped_def show_nat_digit dg)
  note rt = wrapData_roundtrip [OF w refl]
  note rt_some = rt [THEN conjunct2, THEN conjunct2, THEN conjunct2, THEN conjunct1, rule_format]
  note rt_none = rt [THEN conjunct2, THEN conjunct2, THEN conjunct2, THEN conjunct2, rule_format]
  have r: "decode (wrapData_chunks ''hex'' (replicate n x) @ [AddressOutput ''WmultiSig'' 1]) ''hex'' =
      Inr (Some (replicate n x))" if "0 < n" "n \<le> 1305" for n x
    by (rule rt_some) (use that in simp)
  have e: "decode (wrapData_chunks ''hex'' [] @ [AddressOutput ''WmultiSig'' 1]) ''hex'' = Inr None"
    by (rule rt_none) simp
  have "decode (wrapData_chunks ''sig'' ''abc'' @ [AddressOutput ''WmultiSig'' 1]) ''sig'' =
      Inr (Some ''abc'')"
    by (rule rt_some) simp
  then have s: "decode [DataOutput ''sig01abc'', AddressOutput ''WmultiSig'' 1] ''sig'' = Inr (Some ''abc'')"
    by (simp add: c)
  have w': "wrapData wallet_up config1 [] ''sig'' ''abc'' [] =
     ([GetAddress ''multi''], Inr [DataOutput ''sig01abc'', AddressOutput ''WmultiSig'' 1])"
    by (simp add: w c)
  show ?thesis
    by (intro conjI) (rule w' s e | (rule r; simp))+
qed

end
